theory Spec2Isabelle
  imports Complex_Main
begin

section \<open>The model assembly of chemprop (chemprop/models/model.py)\<close>

text \<open>
  The file builds a feed-forward head behind a message passing encoder and defines the
  forward pass of the pair. The embedding keeps the control flow of the three functions
  \<open>create_ffn\<close>, \<open>forward\<close> and \<open>build_model\<close>. What the file imports (the encoder
  \<open>MPN\<close>, \<open>get_activation_function\<close>, \<open>initialize_weights\<close>, and the numeric
  framework that runs a module on a tensor) is not part of it: those are parameters.
\<close>

subsection \<open>Errors\<close>

text \<open>
  The exceptions that can leave the functions of the file. \<open>AttributeError\<close> is what
  Python raises when an attribute that was never assigned is read; the other two are
  what the collaborators raise (an unknown activation name, a shape mismatch).
\<close>

datatype error = AttributeError string | ValueError string | RuntimeError string

subsection \<open>The configuration\<close>

text \<open>
  \<open>args\<close> is an \<open>argparse.Namespace\<close>. The fields below are the ones model.py reads or
  writes. \<open>output_size\<close> is not a command line option: \<open>build_model\<close> assigns it, and
  it is absent (\<open>None\<close>) in a namespace that \<open>build_model\<close> has not seen.
  \<open>confidence\<close> is a string or Python's \<open>None\<close>. The functions below take any
  extension of the record, so the namespace may carry further fields.
\<close>

record Namespace =
  hidden_size :: int
  use_input_features :: bool
  features_dim :: int
  dropout :: real
  activation :: string
  output_size :: "int option"
  ffn_num_layers :: int
  ffn_hidden_size :: int
  last_hidden_size :: int
  num_tasks :: int
  dataset_type :: string
  confidence :: "string option"

subsection \<open>Modules\<close>

text \<open>
  The three kinds of module \<open>create_ffn\<close> puts into the head.

  Python modules are objects, and \<open>forward\<close> depends on which entries of the head are
  the same object (see \<open>children\<close> below). \<open>create_ffn\<close> creates one dropout object and
  one activation object and enters each of them at several positions, while every
  \<open>nn.Linear(...)\<close> call creates a new object. The first argument of \<open>Linear\<close> is
  therefore the identity of the object: the position of the head it was created for.
  With it, two entries of a head are equal exactly when they are the same object.
  The last argument of \<open>Linear\<close> holds the learnable parameters of the layer.

  A module is the data its constructor was called with. That the framework's
  constructors reject some arguments (a dropout rate outside [0, 1], a negative width)
  is not modelled: model.py itself checks neither.
\<close>

datatype ('act, 'p) module =
    Dropout real
  | Linear nat int int 'p
  | Activation 'act

text \<open>
  The collaborators at construction time:
  \<^item> \<open>MPN\<close>: the encoder's constructor (chemprop/models/mpn.py);
  \<^item> \<open>get_activation_function\<close>: chemprop/nn_utils.py, which raises on a name it does
    not know;
  \<^item> \<open>Linear_parameters\<close>: the parameters a new \<open>nn.Linear\<close> starts with;
  \<^item> \<open>init_encoder\<close>, \<open>init_activation\<close>, \<open>init_parameters\<close>: the fixed scheme with
    which \<open>initialize_weights\<close> overwrites the learnable parameters of the encoder, of
    the activation module and of a linear layer.
\<close>

record ('z, 'enc, 'act, 'p) framework =
  MPN :: "'z Namespace_scheme \<Rightarrow> error + 'enc"
  get_activation_function :: "string \<Rightarrow> error + 'act"
  Linear_parameters :: "nat \<Rightarrow> int \<Rightarrow> int \<Rightarrow> 'p"
  init_encoder :: "'enc \<Rightarrow> 'enc"
  init_activation :: "'act \<Rightarrow> 'act"
  init_parameters :: "'p \<Rightarrow> 'p"

definition nn_Linear ::
  "('z, 'enc, 'act, 'p) framework \<Rightarrow> nat \<Rightarrow> int \<Rightarrow> int \<Rightarrow> ('act, 'p) module" where
  "nn_Linear fw pos in_features out_features =
     Linear pos in_features out_features (Linear_parameters fw pos in_features out_features)"

subsection \<open>The model\<close>

text \<open>
  \<open>training\<close> is the attribute every \<open>nn.Module\<close> has; it is \<open>True\<close> after
  construction and toggled by \<open>train()\<close> and \<open>eval()\<close>. \<open>sigmoid\<close>, \<open>encoder\<close> and
  \<open>ffn\<close> are attributes that exist only once they have been assigned.
\<close>

record ('enc, 'act, 'p) MoleculeModel =
  training :: bool
  classification :: bool
  confidence :: bool
  sigmoid :: "unit option"
  use_last_hidden :: bool
  encoder :: "'enc option"
  ffn :: "('act, 'p) module list option"

definition MoleculeModel_init :: "bool \<Rightarrow> bool \<Rightarrow> ('enc, 'act, 'p) MoleculeModel" where
  "MoleculeModel_init classification_arg confidence_arg =
     \<lparr> training = True,
       classification = classification_arg,
       confidence = confidence_arg,
       sigmoid = (if classification_arg then Some () else None),
       use_last_hidden = True,
       encoder = None,
       ffn = None \<rparr>"

definition create_encoder ::
  "('z, 'enc, 'act, 'p) framework \<Rightarrow> ('enc, 'act, 'p) MoleculeModel \<Rightarrow> 'z Namespace_scheme
     \<Rightarrow> error + ('enc, 'act, 'p) MoleculeModel" where
  "create_encoder fw self args =
     (case MPN fw args of
        Inl e \<Rightarrow> Inl e
      | Inr enc \<Rightarrow> Inr (self\<lparr>encoder := Some enc\<rparr>))"

subsection \<open>The head\<close>

text \<open>
  \<open>for _ in range(n): body\<close>, with the counter written out: the body runs while the
  counter is below \<open>n\<close>, so not at all when \<open>n\<close> is zero or negative.
\<close>

function for_range :: "int \<Rightarrow> int \<Rightarrow> ('s \<Rightarrow> 's) \<Rightarrow> 's \<Rightarrow> 's" where
  "for_range i n body s = (if i < n then for_range (i + 1) n body (body s) else s)"
  by pat_completeness auto
termination
  by (relation "measure (\<lambda>(i, n, body, s). nat (n - i))") auto

declare for_range.simps [simp del]

definition create_ffn ::
  "('z, 'enc, 'act, 'p) framework \<Rightarrow> ('enc, 'act, 'p) MoleculeModel \<Rightarrow> 'z Namespace_scheme
     \<Rightarrow> error + ('enc, 'act, 'p) MoleculeModel" where
  "create_ffn fw self args =
     (let first_linear_dim = hidden_size args;
          first_linear_dim =
            (if use_input_features args then first_linear_dim + features_dim args
             else first_linear_dim);
          dropout_module = Dropout (dropout args)
      in case get_activation_function fw (activation args) of
           Inl e \<Rightarrow> Inl e
         | Inr act \<Rightarrow>
             (let activation_module = Activation act
              in case output_size args of
                   None \<Rightarrow> Inl (AttributeError ''output_size'')
                 | Some output_size_arg \<Rightarrow>
                     (let output_size_var =
                            (if MoleculeModel.confidence self then output_size_arg * 2
                             else output_size_arg);
                          layers =
                            (if ffn_num_layers args = 1 then
                               [dropout_module,
                                nn_Linear fw 1 first_linear_dim output_size_var]
                             else
                               (let layers =
                                      [dropout_module,
                                       nn_Linear fw 1 first_linear_dim (ffn_hidden_size args)];
                                    layers =
                                      for_range 0 (ffn_num_layers args - 3)
                                        (\<lambda>layers. layers @
                                           [activation_module,
                                            dropout_module,
                                            nn_Linear fw (length layers + 2)
                                              (ffn_hidden_size args) (ffn_hidden_size args)])
                                        layers;
                                    layers = layers @
                                      [activation_module,
                                       dropout_module,
                                       nn_Linear fw (length layers + 2)
                                         (ffn_hidden_size args) (last_hidden_size args)];
                                    layers = layers @
                                      [activation_module,
                                       dropout_module,
                                       nn_Linear fw (length layers + 2)
                                         (last_hidden_size args) output_size_var]
                                in layers))
                      in Inr (self\<lparr>ffn := Some layers\<rparr>))))"

subsection \<open>The forward pass\<close>

text \<open>
  \<open>forward\<close> calls two methods of the framework on the head, and what they do with an
  object that is entered several times differs.

  \<open>nn.Sequential(*ffn)\<close> registers entry \<open>i\<close> of its argument list under the name
  \<open>str(i)\<close>, and calling it runs every registered entry in order, repeated or not.

  \<open>children()\<close> yields the modules of \<open>named_children()\<close>, which in torch reads
  \<^verbatim>\<open>memo = set()\<close>,
  \<^verbatim>\<open>for name, module in self._modules.items():\<close>
  \<^verbatim>\<open>    if module is not None and module not in memo:\<close>
  \<^verbatim>\<open>        memo.add(module); yield name, module\<close>
  so a module registered under several names is yielded once, at its first position.
  Modules are compared as objects there; in the model, equal entries of a head are the
  same object.

  Python's \<open>xs[:-1]\<close> is \<open>butlast\<close>: all but the last element, and empty for an empty
  list.
\<close>

fun named_children :: "'a list \<Rightarrow> 'a list \<Rightarrow> 'a list" where
  "named_children memo [] = []"
| "named_children memo (m # ms) =
     (if m \<in> set memo then named_children memo ms
      else m # named_children (m # memo) ms)"

definition children :: "'a list \<Rightarrow> 'a list" where
  "children ms = named_children [] ms"

text \<open>
  What runs a module on a value is the framework's business. \<open>'t\<close> is whatever flows
  through the pipeline (a tensor, or only its shape), and the three calls are the
  framework's: the encoder on the raw input, one module of the head, and \<open>nn.Sigmoid\<close>.
  The first two can raise (a shape mismatch).
\<close>

record ('enc, 'act, 'p, 'inp, 't) runtime =
  encoder_call :: "'enc \<Rightarrow> 'inp \<Rightarrow> error + 't"
  module_call :: "('act, 'p) module \<Rightarrow> 't \<Rightarrow> error + 't"
  sigmoid_call :: "'t \<Rightarrow> 't"

fun Sequential_call ::
  "('m \<Rightarrow> 't \<Rightarrow> error + 't) \<Rightarrow> 'm list \<Rightarrow> 't \<Rightarrow> error + 't" where
  "Sequential_call call [] x = Inr x"
| "Sequential_call call (m # ms) x =
     (case call m x of
        Inl e \<Rightarrow> Inl e
      | Inr y \<Rightarrow> Sequential_call call ms y)"

definition forward ::
  "('enc, 'act, 'p, 'inp, 't) runtime \<Rightarrow> ('enc, 'act, 'p) MoleculeModel \<Rightarrow> 'inp \<Rightarrow> error + 't" where
  "forward rt self input =
     (case ffn self of
        None \<Rightarrow> Inl (AttributeError ''ffn'')
      | Some head \<Rightarrow>
          (let stages = (if use_last_hidden self then head else butlast (children head))
           in case encoder self of
                None \<Rightarrow> Inl (AttributeError ''encoder'')
              | Some enc \<Rightarrow>
                  (case encoder_call rt enc input of
                     Inl e \<Rightarrow> Inl e
                   | Inr hidden \<Rightarrow>
                       (case Sequential_call (module_call rt) stages hidden of
                          Inl e \<Rightarrow> Inl e
                        | Inr output \<Rightarrow>
                            if classification self \<and> \<not> training self \<and> use_last_hidden self
                            then (case sigmoid self of
                                    None \<Rightarrow> Inl (AttributeError ''sigmoid'')
                                  | Some _ \<Rightarrow> Inr (sigmoid_call rt output))
                            else Inr output))))"

subsection \<open>Building a model\<close>

text \<open>
  Modelled from the spec: \<open>initialize_weights\<close> (chemprop/nn_utils.py) is not among the
  sources. The spec says of it: "apply a deterministic weight-initialization pass over
  all parameters", "initialize all learnable parameters using a fixed scheme". So it
  overwrites the parameters of the encoder and of every module of the head with the
  framework's scheme, and touches nothing else.
\<close>

fun init_module ::
  "('z, 'enc, 'act, 'p) framework \<Rightarrow> ('act, 'p) module \<Rightarrow> ('act, 'p) module" where
  "init_module fw (Dropout p) = Dropout p"
| "init_module fw (Linear pos i out w) = Linear pos i out (init_parameters fw w)"
| "init_module fw (Activation a) = Activation (init_activation fw a)"

definition initialize_weights ::
  "('z, 'enc, 'act, 'p) framework \<Rightarrow> ('enc, 'act, 'p) MoleculeModel
     \<Rightarrow> ('enc, 'act, 'p) MoleculeModel" where
  "initialize_weights fw model =
     model\<lparr> encoder := map_option (init_encoder fw) (encoder model),
            ffn := map_option (map (init_module fw)) (ffn model) \<rparr>"

text \<open>What \<open>print\<close> writes for a value that is a string or \<open>None\<close>.\<close>

definition py_str :: "string option \<Rightarrow> string" where
  "py_str v = (case v of None \<Rightarrow> ''None'' | Some text \<Rightarrow> text)"

text \<open>
  \<open>build_model\<close> returns the namespace as it leaves it, the lines it has printed, and
  the model or the exception. The assignment to \<open>args.output_size\<close> and the \<open>print\<close>
  come before anything that can raise, so they have happened in either case.
\<close>

definition build_model ::
  "('z, 'enc, 'act, 'p) framework \<Rightarrow> 'z Namespace_scheme
     \<Rightarrow> 'z Namespace_scheme \<times> string list \<times> (error + ('enc, 'act, 'p) MoleculeModel)" where
  "build_model fw args =
     (let output_size_var = num_tasks args;
          args = args\<lparr>output_size := Some output_size_var\<rparr>;
          is_classifier = (dataset_type args = ''classification'');
          (stdout, model) =
            (if Namespace.confidence args = Some ''nn''
             then ([py_str (Namespace.confidence args)], MoleculeModel_init is_classifier True)
             else ([], MoleculeModel_init is_classifier False))
      in (args, stdout,
          case create_encoder fw model args of
            Inl e \<Rightarrow> Inl e
          | Inr model \<Rightarrow>
              (case create_ffn fw model args of
                 Inl e \<Rightarrow> Inl e
               | Inr model \<Rightarrow> Inr (initialize_weights fw model))))"


section \<open>The notions of the specification\<close>

text \<open>
  "Input width = hidden size, plus external-feature width if external features are
  enabled."
\<close>

definition input_width :: "'z Namespace_scheme \<Rightarrow> int" where
  "input_width args =
     (if use_input_features args then hidden_size args + features_dim args
      else hidden_size args)"

text \<open>
  A stage of the head after the first: "preceded by an activation and a dropout, in that
  order, before its linear transform".
\<close>

definition stage ::
  "('z, 'enc, 'act, 'p) framework \<Rightarrow> 'act \<Rightarrow> real \<Rightarrow> nat \<Rightarrow> int \<Rightarrow> int
     \<Rightarrow> ('act, 'p) module list" where
  "stage fw act rate pos in_features out_features =
     [Activation act, Dropout rate, nn_Linear fw pos in_features out_features]"

text \<open>
  The number of interior stages the specification gives: "requested layers - 3", with
  "negative as zero".
\<close>

definition interior_stages :: "int \<Rightarrow> nat" where
  "interior_stages n = (if 0 < n - 3 then nat (n - 3) else 0)"

text \<open>
  The head the specification describes for a layer count above 1: a first stage from the
  input width to the feed-forward width, the interior stages that keep that width, a
  penultimate stage to the last hidden width and a final stage to the output width.
  The positions are those of the linear layers in the list.
\<close>

definition many_layer_head ::
  "('z, 'enc, 'act, 'p) framework \<Rightarrow> 'act \<Rightarrow> 'z Namespace_scheme \<Rightarrow> int
     \<Rightarrow> ('act, 'p) module list" where
  "many_layer_head fw act args out_width =
     [Dropout (dropout args), nn_Linear fw 1 (input_width args) (ffn_hidden_size args)]
     @ concat (map (\<lambda>j. stage fw act (dropout args) (3 * j + 4)
                          (ffn_hidden_size args) (ffn_hidden_size args))
                 [0..<interior_stages (ffn_num_layers args)])
     @ stage fw act (dropout args) (3 * interior_stages (ffn_num_layers args) + 4)
         (ffn_hidden_size args) (last_hidden_size args)
     @ stage fw act (dropout args) (3 * interior_stages (ffn_num_layers args) + 7)
         (last_hidden_size args) out_width"

text \<open>The linear transforms of a head, in order, each as (input width, output width).\<close>

fun linear_dims :: "('act, 'p) module list \<Rightarrow> (int \<times> int) list" where
  "linear_dims [] = []"
| "linear_dims (Linear pos i out w # ms) = (i, out) # linear_dims ms"
| "linear_dims (Dropout rate # ms) = linear_dims ms"
| "linear_dims (Activation act # ms) = linear_dims ms"

text \<open>
  The encoder's output run through a given list of stages, with no output nonlinearity:
  the "raw" output of these stages.
\<close>

definition run_stages ::
  "('enc, 'act, 'p, 'inp, 't) runtime \<Rightarrow> ('enc, 'act, 'p) MoleculeModel
     \<Rightarrow> ('act, 'p) module list \<Rightarrow> 'inp \<Rightarrow> error + 't" where
  "run_stages rt self stages input =
     (case encoder self of
        None \<Rightarrow> Inl (AttributeError ''encoder'')
      | Some enc \<Rightarrow>
          (case encoder_call rt enc input of
             Inl e \<Rightarrow> Inl e
           | Inr hidden \<Rightarrow> Sequential_call (module_call rt) stages hidden))"

text \<open>
  The elements of a tensor are floating point numbers: not-a-number, the two infinities,
  or a finite number, given by the real number it stands for.
\<close>

datatype scalar = NaN | NegInf | PosInf | Finite real

text \<open>
  \<open>nn.Sigmoid\<close> on one element. Not-a-number stays not-a-number; the infinities give
  0 and 1; a finite \<open>v\<close> gives \<open>1 / (1 + exp (- v))\<close> rounded to a float. \<open>rnd\<close> is the
  rounding, a parameter: which float a real number is rounded to depends on the format.
\<close>

fun sigmoid_scalar :: "(real \<Rightarrow> real) \<Rightarrow> scalar \<Rightarrow> scalar" where
  "sigmoid_scalar rnd NaN = NaN"
| "sigmoid_scalar rnd NegInf = Finite 0"
| "sigmoid_scalar rnd PosInf = Finite 1"
| "sigmoid_scalar rnd (Finite v) = Finite (rnd (1 / (1 + exp (- v))))"

text \<open>The sigmoid, elementwise on a batch of rows.\<close>

definition nn_Sigmoid :: "(real \<Rightarrow> real) \<Rightarrow> scalar list list \<Rightarrow> scalar list list" where
  "nn_Sigmoid rnd rows = map (map (sigmoid_scalar rnd)) rows"

text \<open>An element lies in [0, 1]: it is a finite number between 0 and 1.\<close>

fun in_unit_interval :: "scalar \<Rightarrow> bool" where
  "in_unit_interval (Finite v) = (0 \<le> v \<and> v \<le> 1)"
| "in_unit_interval NaN = False"
| "in_unit_interval NegInf = False"
| "in_unit_interval PosInf = False"

text \<open>
  Three instances of the framework at run time.

  Shapes only: what flows is the width of the tensor. Dropout, an activation and the
  sigmoid keep the width; a linear layer wants its input width and gives its output
  width, and raises on any other. The encoder is taken to give the width \<open>w\<close>.
\<close>

fun shape_call :: "('act, 'p) module \<Rightarrow> int \<Rightarrow> error + int" where
  "shape_call (Dropout rate) width = Inr width"
| "shape_call (Activation act) width = Inr width"
| "shape_call (Linear pos i out w) width =
     (if width = i then Inr out else Inl (RuntimeError ''size mismatch''))"

definition shape_runtime :: "int \<Rightarrow> ('enc, 'act, 'p, 'inp, int) runtime" where
  "shape_runtime w =
     \<lparr> encoder_call = (\<lambda>enc input. Inr w),
       module_call = shape_call,
       sigmoid_call = (\<lambda>width. width) \<rparr>"

text \<open>
  Traces: what flows is the list of the modules of the head that have run so far, which
  tells any two runs apart that differ in the modules they apply.
\<close>

definition trace_runtime ::
  "('enc, 'act, 'p, 'inp, ('act, 'p) module list) runtime" where
  "trace_runtime =
     \<lparr> encoder_call = (\<lambda>enc input. Inr []),
       module_call = (\<lambda>m trace. Inr (trace @ [m])),
       sigmoid_call = (\<lambda>trace. trace) \<rparr>"

text \<open>
  Tensors of floats, with an encoder that hands its input on, modules that change
  nothing and a rounding that leaves the values it meets as they are: the least
  framework in which the sigmoid shows.
\<close>

definition plain_runtime ::
  "('enc, 'act, 'p, scalar list list, scalar list list) runtime" where
  "plain_runtime =
     \<lparr> encoder_call = (\<lambda>enc input. Inr input),
       module_call = (\<lambda>m tensor. Inr tensor),
       sigmoid_call = nn_Sigmoid (\<lambda>v. v) \<rparr>"

text \<open>
  A framework for the examples: the encoder is a token, an activation is its name when
  it is one of the names chemprop knows and an exception otherwise, a layer's parameters
  are a token, and the initialisation scheme changes none of them.
\<close>

definition example_framework :: "(unit, unit, string, unit) framework" where
  "example_framework =
     \<lparr> MPN = (\<lambda>args. Inr ()),
       get_activation_function =
         (\<lambda>name. if name \<in> set [''ReLU'', ''LeakyReLU'', ''PReLU'', ''tanh'', ''SELU'', ''ELU'']
                 then Inr name else Inl (ValueError name)),
       Linear_parameters = (\<lambda>pos i out. ()),
       init_encoder = (\<lambda>enc. enc),
       init_activation = (\<lambda>act. act),
       init_parameters = (\<lambda>w. w) \<rparr>"

text \<open>
  The configuration of the specification's example: hidden=300, features_dim=0,
  dropout=0.0, output_size=1, ffn_num_layers=2, ffn_hidden_size=300,
  last_hidden_size=300, for a regression model. \<open>example_args_layers n\<close> is the same
  configuration with \<open>n\<close> feed-forward layers.
\<close>

definition example_args_layers :: "int \<Rightarrow> Namespace" where
  "example_args_layers n =
     \<lparr> hidden_size = 300, use_input_features = False, features_dim = 0,
       dropout = 0, activation = ''ReLU'', output_size = Some 1, ffn_num_layers = n,
       ffn_hidden_size = 300, last_hidden_size = 300, num_tasks = 1,
       dataset_type = ''regression'', confidence = None \<rparr>"

definition example_args :: Namespace where
  "example_args = example_args_layers 2"

text \<open>
  A classifier with twelve tasks, external features and confidence mode, as the command
  line gives it (\<open>output_size\<close> not yet assigned), and the model \<open>build_model\<close> makes
  of it in the example framework.
\<close>

definition classifier_args :: Namespace where
  "classifier_args =
     \<lparr> hidden_size = 300, use_input_features = True, features_dim = 200,
       dropout = 0, activation = ''ReLU'', output_size = None, ffn_num_layers = 3,
       ffn_hidden_size = 300, last_hidden_size = 100, num_tasks = 12,
       dataset_type = ''classification'', confidence = Some ''nn'' \<rparr>"

definition classifier_model :: "(unit, string, unit) MoleculeModel" where
  "classifier_model =
     \<lparr> training = True, classification = True, confidence = True,
       sigmoid = Some (), use_last_hidden = True, encoder = Some (),
       ffn = Some
         [Dropout 0, Linear 1 500 300 (),
          Activation ''ReLU'', Dropout 0, Linear 4 300 100 (),
          Activation ''ReLU'', Dropout 0, Linear 7 100 24 ()] \<rparr>"

text \<open>
  The model \<open>build_model\<close> makes of the example configuration with four layers, and a
  classifier whose head \<open>create_ffn\<close> makes of the example configuration with one layer.
\<close>

definition four_layer_model :: "(unit, string, unit) MoleculeModel" where
  "four_layer_model =
     \<lparr> training = True, classification = False, confidence = False,
       sigmoid = None, use_last_hidden = True, encoder = Some (),
       ffn = Some
         [Dropout 0, Linear 1 300 300 (),
          Activation ''ReLU'', Dropout 0, Linear 4 300 300 (),
          Activation ''ReLU'', Dropout 0, Linear 7 300 300 (),
          Activation ''ReLU'', Dropout 0, Linear 10 300 1 ()] \<rparr>"

definition one_layer_classifier :: "(unit, string, unit) MoleculeModel" where
  "one_layer_classifier =
     \<lparr> training = True, classification = True, confidence = False,
       sigmoid = Some (), use_last_hidden = True, encoder = Some (),
       ffn = Some [Dropout 0, Linear 1 300 1 ()] \<rparr>"

text \<open>The identities of the linear layers among a list of modules.\<close>

fun positions :: "('act, 'p) module list \<Rightarrow> nat set" where
  "positions [] = {}"
| "positions (Linear pos i out w # ms) = insert pos (positions ms)"
| "positions (Dropout rate # ms) = positions ms"
| "positions (Activation act # ms) = positions ms"

text \<open>
  The stages of \<open>many_layer_head\<close> after the first, each as the position, the input
  width and the output width of its linear layer.
\<close>

definition later_stages :: "'z Namespace_scheme \<Rightarrow> int \<Rightarrow> (nat \<times> int \<times> int) list" where
  "later_stages args out_width =
     map (\<lambda>j. (3 * j + 4, ffn_hidden_size args, ffn_hidden_size args))
       [0..<interior_stages (ffn_num_layers args)]
     @ [(3 * interior_stages (ffn_num_layers args) + 4,
         ffn_hidden_size args, last_hidden_size args),
        (3 * interior_stages (ffn_num_layers args) + 7,
         last_hidden_size args, out_width)]"

section \<open>The loop and the shape of the head\<close>

lemma for_range_funpow: "for_range i n body s = (body ^^ nat (n - i)) s"
proof (induction i n body s rule: for_range.induct)
  case (1 i n body s)
  show ?case
  proof (cases "i < n")
    case True
    then have "nat (n - i) = Suc (nat (n - (i + 1)))" by simp
    with True "1" show ?thesis
      by (subst for_range.simps) (simp add: funpow_swap1)
  next
    case False
    then show ?thesis by (subst for_range.simps) simp
  qed
qed

lemma length_concat_triples:
  "length (concat (map (\<lambda>j. [f1 j, f2 j, f3 j]) xs)) = 3 * length xs"
  by (induction xs) simp_all

lemma funpow_extend:
  "((\<lambda>layers. layers @ [a, d, nn_Linear fw (length layers + 2) h h]) ^^ k) s =
     s @ concat (map (\<lambda>j. [a, d, nn_Linear fw (length s + 3 * j + 2) h h]) [0..<k])"
  (is "(?f ^^ k) s = s @ ?c k")
proof (induction k)
  case 0
  show ?case by simp
next
  case (Suc k)
  have "(?f ^^ Suc k) s = ?f ((?f ^^ k) s)" by simp
  also have "\<dots> = ?f (s @ ?c k)" by (simp only: Suc)
  also have "\<dots> = s @ ?c (Suc k)" by (simp add: length_concat_triples)
  finally show ?case .
qed

lemma nat_interior: "nat (n - 3) = interior_stages n"
  by (simp add: interior_stages_def)

lemma create_ffn_eq:
  "create_ffn fw self args =
     (case get_activation_function fw (activation args) of
        Inl e \<Rightarrow> Inl e
      | Inr act \<Rightarrow>
          (case output_size args of
             None \<Rightarrow> Inl (AttributeError ''output_size'')
           | Some out \<Rightarrow>
               Inr (self\<lparr>ffn := Some
                 (if ffn_num_layers args = 1
                  then [Dropout (dropout args),
                        nn_Linear fw 1 (input_width args)
                          (if MoleculeModel.confidence self then out * 2 else out)]
                  else many_layer_head fw act args
                         (if MoleculeModel.confidence self then out * 2 else out))\<rparr>)))"
  unfolding create_ffn_def Let_def for_range_funpow funpow_extend many_layer_head_def
    stage_def input_width_def
  by (simp add: nat_interior length_concat_triples eval_nat_numeral split: sum.split option.split)

lemma create_ffn_InrD:
  assumes "create_ffn fw self args = Inr model"
  obtains act out where
    "get_activation_function fw (activation args) = Inr act"
    "output_size args = Some out"
    "model = self\<lparr>ffn := Some
       (if ffn_num_layers args = 1
        then [Dropout (dropout args),
              nn_Linear fw 1 (input_width args)
                (if MoleculeModel.confidence self then out * 2 else out)]
        else many_layer_head fw act args
               (if MoleculeModel.confidence self then out * 2 else out))\<rparr>"
  using assms unfolding create_ffn_eq
  by (auto split: sum.splits option.splits)

lemma linear_dims_append: "linear_dims (xs @ ys) = linear_dims xs @ linear_dims ys"
  by (induction xs rule: linear_dims.induct) simp_all

lemma linear_dims_stage: "linear_dims (stage fw act rate pos i out) = [(i, out)]"
  by (simp add: stage_def nn_Linear_def)

lemma linear_dims_stages:
  "linear_dims (concat (map (\<lambda>j. stage fw act rate (f j) i out) xs)) = replicate (length xs) (i, out)"
  by (induction xs) (simp_all add: linear_dims_append linear_dims_stage)

lemma linear_dims_many:
  "linear_dims (many_layer_head fw act args out) =
     (input_width args, ffn_hidden_size args)
     # replicate (interior_stages (ffn_num_layers args)) (ffn_hidden_size args, ffn_hidden_size args)
     @ [(ffn_hidden_size args, last_hidden_size args), (last_hidden_size args, out)]"
  by (simp add: many_layer_head_def linear_dims_append linear_dims_stage linear_dims_stages nn_Linear_def)

lemma length_stages:
  "length (concat (map (\<lambda>j. stage fw act rate (f j) i out) xs)) = 3 * length xs"
  by (induction xs) (simp_all add: stage_def)

lemma length_many: "length (many_layer_head fw act args out) = 3 * interior_stages (ffn_num_layers args) + 8"
  by (simp add: many_layer_head_def length_stages) (simp add: stage_def)

lemma last_many:
  "last (many_layer_head fw act args out) =
     nn_Linear fw (3 * interior_stages (ffn_num_layers args) + 7) (last_hidden_size args) out"
  by (simp add: many_layer_head_def stage_def)

section \<open>The head of a one-layer configuration\<close>

text \<open>
  C5. With a feed-forward layer count of 1, the head is one dropout followed by one linear
  transform, and has no other linear transform. The linear transform goes from the input
  width (the hidden size, plus the width of the external features when they are enabled)
  to the output width (the namespace's \<open>output_size\<close>, doubled for a model in confidence
  mode).
\<close>
theorem create_ffn_single_layer:
  assumes "ffn_num_layers args = 1" and "create_ffn fw self args = Inr model"
  shows "\<exists>out head.
           output_size args = Some out \<and>
           ffn model = Some head \<and>
           head = [Dropout (dropout args),
                   nn_Linear fw 1 (input_width args)
                     (if MoleculeModel.confidence self then out * 2 else out)] \<and>
           linear_dims head =
             [(if use_input_features args then hidden_size args + features_dim args
               else hidden_size args,
               if MoleculeModel.confidence self then out * 2 else out)]"
proof -
  from assms(2) obtain act out where
    out: "output_size args = Some out" and
    model: "model = self\<lparr>ffn := Some
       (if ffn_num_layers args = 1
        then [Dropout (dropout args),
              nn_Linear fw 1 (input_width args)
                (if MoleculeModel.confidence self then out * 2 else out)]
        else many_layer_head fw act args
               (if MoleculeModel.confidence self then out * 2 else out))\<rparr>"
    by (rule create_ffn_InrD)
  from model assms(1) have "ffn model = Some [Dropout (dropout args),
              nn_Linear fw 1 (input_width args)
                (if MoleculeModel.confidence self then out * 2 else out)]"
    by simp
  with out show ?thesis
    by (simp add: nn_Linear_def input_width_def)
qed

theorem create_ffn_single_layer_witness:
  "ffn_num_layers (classifier_args\<lparr>output_size := Some 12, ffn_num_layers := 1\<rparr>) = 1 \<and>
   create_ffn example_framework (MoleculeModel_init True True)
       (classifier_args\<lparr>output_size := Some 12, ffn_num_layers := 1\<rparr>) =
     Inr ((MoleculeModel_init True True)\<lparr>ffn := Some [Dropout 0, Linear 1 500 24 ()]\<rparr>) \<and>
   linear_dims [Dropout 0, Linear 1 500 24 () :: (string, unit) module] = [(300 + 200, 12 * 2)]"
proof -
  let ?args = "classifier_args\<lparr>output_size := Some 12, ffn_num_layers := 1\<rparr>"
  have build: "create_ffn example_framework (MoleculeModel_init True True) ?args =
     Inr ((MoleculeModel_init True True)\<lparr>ffn := Some [Dropout 0, Linear 1 500 24 ()]\<rparr>)"
    by (simp add: create_ffn_eq example_framework_def classifier_args_def
        MoleculeModel_init_def nn_Linear_def input_width_def)
  have one: "ffn_num_layers ?args = 1"
    by simp
  have dims: "linear_dims [Dropout 0, Linear 1 500 24 () :: (string, unit) module] =
      [(300 + 200, 12 * 2)]"
    by simp
  from create_ffn_single_layer [OF one build] one build dims show ?thesis
    by (intro conjI)
qed

section \<open>The interior stages\<close>

text \<open>
  C6. With a feed-forward layer count \<open>N > 1\<close>, the head is the first stage, then \<open>k\<close>
  interior activation-dropout-linear stages that keep the feed-forward width, then the
  penultimate and the final stage, where \<open>k\<close> is \<open>N - 3\<close> when that is positive and zero
  otherwise: \<open>range\<close> of a negative number is empty.
\<close>
theorem create_ffn_interior_stage_count:
  assumes "1 < ffn_num_layers args" and "create_ffn fw self args = Inr model"
  shows "\<exists>act out k head.
           get_activation_function fw (activation args) = Inr act \<and>
           output_size args = Some out \<and>
           k = (if 0 < ffn_num_layers args - 3 then nat (ffn_num_layers args - 3) else 0) \<and>
           ffn model = Some head \<and>
           head =
             [Dropout (dropout args),
              nn_Linear fw 1 (input_width args) (ffn_hidden_size args)]
             @ concat (map (\<lambda>j. stage fw act (dropout args) (3 * j + 4)
                                  (ffn_hidden_size args) (ffn_hidden_size args)) [0..<k])
             @ stage fw act (dropout args) (3 * k + 4)
                 (ffn_hidden_size args) (last_hidden_size args)
             @ stage fw act (dropout args) (3 * k + 7) (last_hidden_size args)
                 (if MoleculeModel.confidence self then out * 2 else out) \<and>
           length head = 3 * k + 8"
proof -
  from assms(2) obtain act out where
    act: "get_activation_function fw (activation args) = Inr act" and
    out: "output_size args = Some out" and
    model: "model = self\<lparr>ffn := Some
       (if ffn_num_layers args = 1
        then [Dropout (dropout args),
              nn_Linear fw 1 (input_width args)
                (if MoleculeModel.confidence self then out * 2 else out)]
        else many_layer_head fw act args
               (if MoleculeModel.confidence self then out * 2 else out))\<rparr>"
    by (rule create_ffn_InrD)
  from model assms(1) have head: "ffn model = Some (many_layer_head fw act args
               (if MoleculeModel.confidence self then out * 2 else out))"
    by simp
  have k: "interior_stages (ffn_num_layers args) =
      (if 0 < ffn_num_layers args - 3 then nat (ffn_num_layers args - 3) else 0)"
    by (simp add: interior_stages_def)
  show ?thesis
    using act out head length_many [of fw act args "if MoleculeModel.confidence self then out * 2 else out"]
    unfolding k [symmetric]
    by (simp add: many_layer_head_def)
qed

text \<open>
  Five layers give two interior stages, and the two layers of the example configuration
  give none.
\<close>

lemma create_ffn_example_args:
  "create_ffn example_framework (MoleculeModel_init False False) example_args =
     Inr ((MoleculeModel_init False False)\<lparr>ffn := Some
       [Dropout 0, Linear 1 300 300 (),
        Activation ''ReLU'', Dropout 0, Linear 4 300 300 (),
        Activation ''ReLU'', Dropout 0, Linear 7 300 1 ()]\<rparr>)"
proof -
  have k: "interior_stages 2 = 0"
    by (simp add: interior_stages_def)
  show ?thesis
    by (simp add: create_ffn_eq example_args_def example_framework_def example_args_layers_def
        MoleculeModel_init_def nn_Linear_def input_width_def many_layer_head_def stage_def k)
qed

theorem create_ffn_interior_stage_count_witness:
  "1 < ffn_num_layers (example_args_layers 5) \<and>
   create_ffn example_framework (MoleculeModel_init False False) (example_args_layers 5) =
     Inr ((MoleculeModel_init False False)\<lparr>ffn := Some
       [Dropout 0, Linear 1 300 300 (),
        Activation ''ReLU'', Dropout 0, Linear 4 300 300 (),
        Activation ''ReLU'', Dropout 0, Linear 7 300 300 (),
        Activation ''ReLU'', Dropout 0, Linear 10 300 300 (),
        Activation ''ReLU'', Dropout 0, Linear 13 300 1 ()]\<rparr>) \<and>
   (if 0 < ffn_num_layers (example_args_layers 5) - 3
    then nat (ffn_num_layers (example_args_layers 5) - 3) else 0) = 2 \<and>
   1 < ffn_num_layers example_args \<and>
   create_ffn example_framework (MoleculeModel_init False False) example_args =
     Inr ((MoleculeModel_init False False)\<lparr>ffn := Some
       [Dropout 0, Linear 1 300 300 (),
        Activation ''ReLU'', Dropout 0, Linear 4 300 300 (),
        Activation ''ReLU'', Dropout 0, Linear 7 300 1 ()]\<rparr>) \<and>
   (if 0 < ffn_num_layers example_args - 3
    then nat (ffn_num_layers example_args - 3) else 0) = 0"
proof -
  have layers: "1 < ffn_num_layers (example_args_layers 5)"
    by (simp add: example_args_layers_def)
  have two: "1 < ffn_num_layers example_args"
    by (simp add: example_args_def example_args_layers_def)
  have k: "interior_stages 5 = 2"
    by (simp add: interior_stages_def)
  have upt: "[0..<2] = [0, 1 :: nat]"
    by (simp add: eval_nat_numeral)
  have build: "create_ffn example_framework (MoleculeModel_init False False) (example_args_layers 5) =
     Inr ((MoleculeModel_init False False)\<lparr>ffn := Some
       [Dropout 0, Linear 1 300 300 (),
        Activation ''ReLU'', Dropout 0, Linear 4 300 300 (),
        Activation ''ReLU'', Dropout 0, Linear 7 300 300 (),
        Activation ''ReLU'', Dropout 0, Linear 10 300 300 (),
        Activation ''ReLU'', Dropout 0, Linear 13 300 1 ()]\<rparr>)"
    by (simp add: create_ffn_eq example_framework_def example_args_layers_def
        MoleculeModel_init_def nn_Linear_def input_width_def many_layer_head_def stage_def k upt)
  from create_ffn_interior_stage_count [OF layers build]
    create_ffn_interior_stage_count [OF two create_ffn_example_args]
    layers two build create_ffn_example_args
  show ?thesis
    by (simp add: example_args_def example_args_layers_def)
qed

section \<open>The number of linear transforms\<close>

text \<open>
  C1. The claim is that a layer count \<open>N > 1\<close> gives exactly \<open>N\<close> linear transforms,
  and that the example configuration with \<open>ffn_num_layers = 2\<close> gives the head
  [dropout, linear(300, 300), activation, dropout, linear(300, 1)]. On the example,
  \<open>create_ffn\<close> builds eight modules with three linear transforms: the loop adds
  \<open>N - 3\<close> stages, none for \<open>N = 2\<close>, and the penultimate and the final stage follow
  the first one whatever \<open>N\<close> is.
\<close>
theorem create_ffn_two_layers_example:
  "ffn_num_layers example_args = 2 \<and>
   create_ffn example_framework (MoleculeModel_init False False) example_args =
     Inr ((MoleculeModel_init False False)\<lparr>ffn := Some
       [Dropout 0, Linear 1 300 300 (),
        Activation ''ReLU'', Dropout 0, Linear 4 300 300 (),
        Activation ''ReLU'', Dropout 0, Linear 7 300 1 ()]\<rparr>) \<and>
   linear_dims
       [Dropout 0, Linear 1 300 300 (),
        Activation ''ReLU'', Dropout 0, Linear 4 300 300 (),
        Activation ''ReLU'', Dropout 0, Linear 7 300 1 () :: (string, unit) module] =
     [(300, 300), (300, 300), (300, 1)]"
proof -
  have k: "interior_stages 2 = 0"
    by (simp add: interior_stages_def)
  show ?thesis
    by (simp add: create_ffn_eq example_args_def example_framework_def example_args_layers_def
        MoleculeModel_init_def nn_Linear_def input_width_def many_layer_head_def stage_def k)
qed

text \<open>
  What \<open>create_ffn\<close> builds for every layer count \<open>N > 1\<close>: the widths of the linear
  transforms are the feed-forward width except for the last two, which are the last
  hidden width and the output width, and their number is \<open>N\<close> from three layers on and
  three for \<open>N = 2\<close>.
\<close>
theorem create_ffn_linear_transforms:
  assumes "1 < ffn_num_layers args" and "create_ffn fw self args = Inr model"
  shows "\<exists>out head.
           output_size args = Some out \<and>
           ffn model = Some head \<and>
           linear_dims head =
             (input_width args, ffn_hidden_size args)
             # replicate (nat (ffn_num_layers args - 3)) (ffn_hidden_size args, ffn_hidden_size args)
             @ [(ffn_hidden_size args, last_hidden_size args),
                (last_hidden_size args, if MoleculeModel.confidence self then out * 2 else out)] \<and>
           int (length (linear_dims head)) = max (ffn_num_layers args) 3"
proof -
  from assms(2) obtain act out where
    out: "output_size args = Some out" and
    model: "model = self\<lparr>ffn := Some
       (if ffn_num_layers args = 1
        then [Dropout (dropout args),
              nn_Linear fw 1 (input_width args)
                (if MoleculeModel.confidence self then out * 2 else out)]
        else many_layer_head fw act args
               (if MoleculeModel.confidence self then out * 2 else out))\<rparr>"
    by (rule create_ffn_InrD)
  from model assms(1) have head: "ffn model = Some (many_layer_head fw act args
               (if MoleculeModel.confidence self then out * 2 else out))"
    by simp
  show ?thesis
    using out head by (simp add: linear_dims_many nat_interior [symmetric])
qed

theorem create_ffn_linear_transforms_witness:
  "1 < ffn_num_layers (example_args_layers 4) \<and>
   create_ffn example_framework (MoleculeModel_init False False) (example_args_layers 4) =
     Inr ((MoleculeModel_init False False)\<lparr>ffn := Some
       [Dropout 0, Linear 1 300 300 (),
        Activation ''ReLU'', Dropout 0, Linear 4 300 300 (),
        Activation ''ReLU'', Dropout 0, Linear 7 300 300 (),
        Activation ''ReLU'', Dropout 0, Linear 10 300 1 ()]\<rparr>) \<and>
   linear_dims
       [Dropout 0, Linear 1 300 300 (),
        Activation ''ReLU'', Dropout 0, Linear 4 300 300 (),
        Activation ''ReLU'', Dropout 0, Linear 7 300 300 (),
        Activation ''ReLU'', Dropout 0, Linear 10 300 1 () :: (string, unit) module] =
     [(300, 300), (300, 300), (300, 300), (300, 1)] \<and>
   max (ffn_num_layers (example_args_layers 4)) 3 = 4"
proof -
  have layers: "1 < ffn_num_layers (example_args_layers 4)"
    by (simp add: example_args_layers_def)
  have k: "interior_stages 4 = 1"
    by (simp add: interior_stages_def)
  have build: "create_ffn example_framework (MoleculeModel_init False False) (example_args_layers 4) =
     Inr ((MoleculeModel_init False False)\<lparr>ffn := Some
       [Dropout 0, Linear 1 300 300 (),
        Activation ''ReLU'', Dropout 0, Linear 4 300 300 (),
        Activation ''ReLU'', Dropout 0, Linear 7 300 300 (),
        Activation ''ReLU'', Dropout 0, Linear 10 300 1 ()]\<rparr>)"
    by (simp add: create_ffn_eq example_framework_def example_args_layers_def
        MoleculeModel_init_def nn_Linear_def input_width_def many_layer_head_def stage_def k)
  from create_ffn_linear_transforms [OF layers build] layers build show ?thesis
    by (simp add: example_args_layers_def)
qed

section \<open>What build_model returns\<close>

lemma build_model_eq:
  "build_model fw args =
     (args\<lparr>output_size := Some (num_tasks args)\<rparr>,
      if Namespace.confidence args = Some ''nn'' then [''nn''] else [],
      case MPN fw (args\<lparr>output_size := Some (num_tasks args)\<rparr>) of
        Inl e \<Rightarrow> Inl e
      | Inr enc \<Rightarrow>
          (case create_ffn fw
                  ((MoleculeModel_init (dataset_type args = ''classification'')
                      (Namespace.confidence args = Some ''nn''))\<lparr>encoder := Some enc\<rparr>)
                  (args\<lparr>output_size := Some (num_tasks args)\<rparr>) of
             Inl e \<Rightarrow> Inl e
           | Inr model \<Rightarrow> Inr (initialize_weights fw model)))"
  by (simp add: build_model_def create_encoder_def py_str_def Let_def split: sum.split)

lemma build_model_fst:
  "fst (build_model fw args) = args\<lparr>output_size := Some (num_tasks args)\<rparr>"
  by (simp add: build_model_eq)

lemma build_model_result:
  "snd (snd (build_model fw args)) =
     (case MPN fw (args\<lparr>output_size := Some (num_tasks args)\<rparr>) of
        Inl e \<Rightarrow> Inl e
      | Inr enc \<Rightarrow>
          (case create_ffn fw
                  ((MoleculeModel_init (dataset_type args = ''classification'')
                      (Namespace.confidence args = Some ''nn''))\<lparr>encoder := Some enc\<rparr>)
                  (args\<lparr>output_size := Some (num_tasks args)\<rparr>) of
             Inl e \<Rightarrow> Inl e
           | Inr model \<Rightarrow> Inr (initialize_weights fw model)))"
  by (simp add: build_model_eq)

lemma build_model_idem:
  "build_model fw (args\<lparr>output_size := Some (num_tasks args)\<rparr>) = build_model fw args"
  by (simp add: build_model_eq cong: sum.case_cong)

lemma linear_dims_init: "linear_dims (map (init_module fw) ms) = linear_dims ms"
  by (induction ms rule: linear_dims.induct) simp_all

lemma build_model_InrD:
  assumes "build_model fw args = (args', printed, Inr model)"
  obtains enc built where
    "args' = args\<lparr>output_size := Some (num_tasks args)\<rparr>"
    "MPN fw args' = Inr enc"
    "create_ffn fw
       ((MoleculeModel_init (dataset_type args = ''classification'')
           (Namespace.confidence args = Some ''nn''))\<lparr>encoder := Some enc\<rparr>) args' = Inr built"
    "model = initialize_weights fw built"
  using assms unfolding build_model_eq
  by (auto split: sum.splits)

lemma create_ffn_final_linear:
  assumes "create_ffn fw self args = Inr model"
  shows "\<exists>out head pos i.
           output_size args = Some out \<and>
           ffn model = Some head \<and> head \<noteq> [] \<and>
           last head =
             nn_Linear fw pos i (if MoleculeModel.confidence self then out * 2 else out) \<and>
           linear_dims head \<noteq> [] \<and>
           snd (last (linear_dims head)) =
             (if MoleculeModel.confidence self then out * 2 else out)"
proof -
  from assms obtain act out where
    out: "output_size args = Some out" and
    model: "model = self\<lparr>ffn := Some
       (if ffn_num_layers args = 1
        then [Dropout (dropout args),
              nn_Linear fw 1 (input_width args)
                (if MoleculeModel.confidence self then out * 2 else out)]
        else many_layer_head fw act args
               (if MoleculeModel.confidence self then out * 2 else out))\<rparr>"
    by (rule create_ffn_InrD)
  let ?out = "if MoleculeModel.confidence self then out * 2 else out"
  show ?thesis
  proof (cases "ffn_num_layers args = 1")
    case True
    with model have head: "ffn model = Some [Dropout (dropout args),
              nn_Linear fw 1 (input_width args) ?out]"
      by simp
    have "last [Dropout (dropout args), nn_Linear fw 1 (input_width args) ?out]
            = nn_Linear fw 1 (input_width args) ?out"
      by simp
    moreover have "linear_dims [Dropout (dropout args), nn_Linear fw 1 (input_width args) ?out]
            = [(input_width args, ?out)]"
      by (simp add: nn_Linear_def)
    ultimately show ?thesis using out head by fastforce
  next
    case False
    with model have head: "ffn model = Some (many_layer_head fw act args ?out)"
      by simp
    have "many_layer_head fw act args ?out \<noteq> []"
      by (simp add: many_layer_head_def)
    moreover have "linear_dims (many_layer_head fw act args ?out) \<noteq> []"
      by (simp add: linear_dims_many)
    moreover have "snd (last (linear_dims (many_layer_head fw act args ?out))) = ?out"
      by (simp add: linear_dims_many)
    ultimately show ?thesis using out head last_many [of fw act args ?out] by fastforce
  qed
qed

lemma create_ffn_frame:
  assumes "create_ffn fw self args = Inr model"
  shows "\<exists>head. model = self\<lparr>ffn := Some head\<rparr>"
  using assms by (rule create_ffn_InrD) blast

text \<open>
  C3. In a model that \<open>build_model\<close> returns, the last module of the head is a linear
  transform whose output width is the task count, times two when the model is in
  confidence mode, which it is exactly when the confidence setting is \<open>nn\<close>; and
  \<open>build_model\<close> has set the namespace's \<open>output_size\<close> to the task count, which is the
  namespace the head is then built from.
\<close>
theorem build_model_output_width:
  fixes fw :: "('z, 'enc, 'act, 'p) framework"
  assumes "build_model fw args = (args', printed, Inr model)"
  shows "output_size args' = Some (num_tasks args) \<and>
         (MoleculeModel.confidence model \<longleftrightarrow> Namespace.confidence args = Some ''nn'') \<and>
         (\<exists>head pos i w.
            ffn model = Some head \<and> head \<noteq> [] \<and>
            last head =
              Linear pos i
                (if MoleculeModel.confidence model then num_tasks args * 2 else num_tasks args) w \<and>
            linear_dims head \<noteq> [] \<and>
            snd (last (linear_dims head)) =
              (if MoleculeModel.confidence model then num_tasks args * 2 else num_tasks args))"
proof -
  let ?self = "MoleculeModel_init (dataset_type args = ''classification'')
           (Namespace.confidence args = Some ''nn'') :: ('enc, 'act, 'p) MoleculeModel"
  from assms obtain enc built where
    args': "args' = args\<lparr>output_size := Some (num_tasks args)\<rparr>" and
    built: "create_ffn fw (?self\<lparr>encoder := Some enc\<rparr>) args' = Inr built" and
    model: "model = initialize_weights fw built"
    by (rule build_model_InrD)
  from create_ffn_frame [OF built]
  have conf: "MoleculeModel.confidence model = MoleculeModel.confidence (?self\<lparr>encoder := Some enc\<rparr>)"
    by (auto simp: model initialize_weights_def)
  let ?out = "if MoleculeModel.confidence model then num_tasks args * 2 else num_tasks args"
  from create_ffn_final_linear [OF built] args' obtain head pos i where
    head: "ffn built = Some head" and nonempty: "head \<noteq> []" and
    final: "last head = nn_Linear fw pos i ?out" and
    dims: "linear_dims head \<noteq> []" "snd (last (linear_dims head)) = ?out"
    unfolding conf by auto
  have "ffn model = Some (map (init_module fw) head)"
    by (simp add: model initialize_weights_def head)
  moreover have "map (init_module fw) head \<noteq> []" using nonempty by simp
  moreover have "last (map (init_module fw) head) =
      Linear pos i ?out (init_parameters fw (Linear_parameters fw pos i ?out))"
    using nonempty final by (simp add: last_map nn_Linear_def)
  moreover have "linear_dims (map (init_module fw) head) = linear_dims head"
    by (rule linear_dims_init)
  moreover have "MoleculeModel.confidence model \<longleftrightarrow> Namespace.confidence args = Some ''nn''"
    by (simp add: conf MoleculeModel_init_def)
  ultimately show ?thesis
    using dims args' by auto
qed

lemma build_classifier:
  "build_model example_framework classifier_args =
     (classifier_args\<lparr>output_size := Some 12\<rparr>, [''nn''], Inr classifier_model)"
proof -
  have k: "interior_stages 3 = 0"
    by (simp add: interior_stages_def)
  show ?thesis
    by (simp add: build_model_eq create_ffn_eq example_framework_def classifier_args_def
        classifier_model_def MoleculeModel_init_def nn_Linear_def input_width_def
        many_layer_head_def stage_def k initialize_weights_def)
qed

lemma build_unknown_activation:
  "build_model example_framework (classifier_args\<lparr>activation := ''swish''\<rparr>) =
     (classifier_args\<lparr>activation := ''swish'', output_size := Some 12\<rparr>, [''nn''],
      Inl (ValueError ''swish''))"
  by (simp add: build_model_eq create_ffn_eq example_framework_def classifier_args_def)

lemma build_broken_encoder:
  "build_model (example_framework\<lparr>MPN := \<lambda>args. Inl (RuntimeError ''MPN'')\<rparr>)
       (classifier_args\<lparr>activation := ''swish''\<rparr>) =
     (classifier_args\<lparr>activation := ''swish'', output_size := Some 12\<rparr>, [''nn''],
      Inl (RuntimeError ''MPN''))"
  by (simp add: build_model_eq classifier_args_def)

theorem build_model_output_width_witness:
  "build_model example_framework classifier_args =
     (classifier_args\<lparr>output_size := Some 12\<rparr>, [''nn''], Inr classifier_model) \<and>
   num_tasks classifier_args = 12 \<and>
   Namespace.confidence classifier_args = Some ''nn'' \<and>
   MoleculeModel.confidence classifier_model \<and>
   ffn classifier_model = Some
     [Dropout 0, Linear 1 500 300 (),
      Activation ''ReLU'', Dropout 0, Linear 4 300 100 (),
      Activation ''ReLU'', Dropout 0, Linear 7 100 24 ()] \<and>
   last [Dropout 0, Linear 1 500 300 (),
         Activation ''ReLU'', Dropout 0, Linear 4 300 100 (),
         Activation ''ReLU'', Dropout 0, Linear 7 100 24 () :: (string, unit) module] =
     Linear 7 100 (12 * 2) ()"
  using build_model_output_width [OF build_classifier] build_classifier
  by (simp add: classifier_args_def classifier_model_def)

text \<open>
  C7. \<open>build_model\<close> leaves the namespace with \<open>output_size\<close> set to the task count and
  every other field as it was, whether or not the construction succeeds. The write
  comes before the construction: the encoder and the head are built from the written
  namespace, so building from it again gives the same lines and the same result. (The
  collaborators are functions of the namespace here: that they do not write to it is
  part of the model.)
\<close>
theorem build_model_writes_output_size:
  assumes "build_model fw args = (args', printed, result)"
  shows "args' = args\<lparr>output_size := Some (num_tasks args)\<rparr> \<and>
         output_size args' = Some (num_tasks args) \<and>
         hidden_size args' = hidden_size args \<and>
         use_input_features args' = use_input_features args \<and>
         features_dim args' = features_dim args \<and>
         dropout args' = dropout args \<and>
         activation args' = activation args \<and>
         ffn_num_layers args' = ffn_num_layers args \<and>
         ffn_hidden_size args' = ffn_hidden_size args \<and>
         last_hidden_size args' = last_hidden_size args \<and>
         num_tasks args' = num_tasks args \<and>
         dataset_type args' = dataset_type args \<and>
         Namespace.confidence args' = Namespace.confidence args \<and>
         Namespace.more args' = Namespace.more args \<and>
         build_model fw args' = (args', printed, result)"
proof -
  from assms have "args' = fst (build_model fw args)"
    and printed: "printed = fst (snd (build_model fw args))"
    and result: "result = snd (snd (build_model fw args))"
    by simp_all
  then have args': "args' = args\<lparr>output_size := Some (num_tasks args)\<rparr>"
    by (simp add: build_model_fst)
  note eqs = args' printed result
  have "build_model fw args' = build_model fw args"
    unfolding args' by (rule build_model_idem)
  with assms show ?thesis
    by (simp add: args')
qed

theorem build_model_writes_output_size_witness:
  "build_model example_framework classifier_args =
     (classifier_args\<lparr>output_size := Some 12\<rparr>, [''nn''], Inr classifier_model) \<and>
   output_size classifier_args = None \<and>
   num_tasks classifier_args = 12 \<and>
   build_model example_framework (classifier_args\<lparr>output_size := Some 12\<rparr>) =
     (classifier_args\<lparr>output_size := Some 12\<rparr>, [''nn''], Inr classifier_model)"
  using build_model_writes_output_size [OF build_classifier] build_classifier
  by (simp add: classifier_args_def)

text \<open>
  C8. The model \<open>build_model\<close> returns is a classifier exactly when the dataset type is
  \<open>classification\<close>, and in confidence mode exactly when the confidence setting is
  \<open>nn\<close>. It is made in this order: the encoder from the written namespace (its
  exception ends the build), then the head on the model that holds this encoder (its
  exception ends the build), then the initialisation of the parameters of the result.
\<close>
theorem build_model_assembly:
  fixes fw :: "('z, 'enc, 'act, 'p) framework"
  assumes "build_model fw args = (args', printed, result)"
  shows "(\<forall>e. MPN fw args' = Inl e \<longrightarrow> result = Inl e) \<and>
         (\<forall>enc e.
            MPN fw args' = Inr enc \<and>
            create_ffn fw
              ((MoleculeModel_init (dataset_type args = ''classification'')
                  (Namespace.confidence args = Some ''nn''))\<lparr>encoder := Some enc\<rparr>) args' = Inl e
            \<longrightarrow> result = Inl e) \<and>
         (\<forall>model. result = Inr model \<longrightarrow>
            (classification model \<longleftrightarrow> dataset_type args = ''classification'') \<and>
            (MoleculeModel.confidence model \<longleftrightarrow> Namespace.confidence args = Some ''nn'') \<and>
            (\<exists>enc built.
               MPN fw args' = Inr enc \<and>
               create_ffn fw
                 ((MoleculeModel_init (dataset_type args = ''classification'')
                     (Namespace.confidence args = Some ''nn''))\<lparr>encoder := Some enc\<rparr>) args'
                 = Inr built \<and>
               encoder built = Some enc \<and>
               model = initialize_weights fw built))"
proof -
  let ?self = "MoleculeModel_init (dataset_type args = ''classification'')
           (Namespace.confidence args = Some ''nn'') :: ('enc, 'act, 'p) MoleculeModel"
  from assms have "args' = fst (build_model fw args)"
    by simp
  then have args': "args' = args\<lparr>output_size := Some (num_tasks args)\<rparr>"
    by (simp add: build_model_fst)
  from assms have "result = snd (snd (build_model fw args))"
    by simp
  then have result: "result =
      (case MPN fw args' of
        Inl e \<Rightarrow> Inl e
      | Inr enc \<Rightarrow>
          (case create_ffn fw (?self\<lparr>encoder := Some enc\<rparr>) args' of
             Inl e \<Rightarrow> Inl e
           | Inr model \<Rightarrow> Inr (initialize_weights fw model)))"
    by (simp only: build_model_result args')
  have fail_enc: "\<forall>e. MPN fw args' = Inl e \<longrightarrow> result = Inl e"
    by (simp add: result)
  have fail_ffn: "\<forall>enc e. MPN fw args' = Inr enc \<and>
      create_ffn fw (?self\<lparr>encoder := Some enc\<rparr>) args' = Inl e \<longrightarrow> result = Inl e"
    by (simp add: result)
  have ok: "(classification model \<longleftrightarrow> dataset_type args = ''classification'') \<and>
            (MoleculeModel.confidence model \<longleftrightarrow> Namespace.confidence args = Some ''nn'') \<and>
            (\<exists>enc built.
               MPN fw args' = Inr enc \<and>
               create_ffn fw (?self\<lparr>encoder := Some enc\<rparr>) args' = Inr built \<and>
               encoder built = Some enc \<and>
               model = initialize_weights fw built)"
    if "result = Inr model" for model
  proof -
    from that result obtain enc built where
      enc: "MPN fw args' = Inr enc" and
      built: "create_ffn fw (?self\<lparr>encoder := Some enc\<rparr>) args' = Inr built" and
      model: "model = initialize_weights fw built"
      by (auto split: sum.splits)
    from create_ffn_frame [OF built] obtain head where
      frame: "built = ?self\<lparr>encoder := Some enc\<rparr>\<lparr>ffn := Some head\<rparr>"
      by blast
    have "classification model \<longleftrightarrow> dataset_type args = ''classification''"
      by (simp add: model frame initialize_weights_def MoleculeModel_init_def)
    moreover have "MoleculeModel.confidence model \<longleftrightarrow> Namespace.confidence args = Some ''nn''"
      by (simp add: model frame initialize_weights_def MoleculeModel_init_def)
    moreover have "encoder built = Some enc"
      by (simp add: frame)
    ultimately show ?thesis using enc built model by blast
  qed
  from fail_enc fail_ffn ok show ?thesis by blast
qed

theorem build_model_assembly_witness:
  "build_model example_framework classifier_args =
     (classifier_args\<lparr>output_size := Some 12\<rparr>, [''nn''], Inr classifier_model) \<and>
   dataset_type classifier_args = ''classification'' \<and>
   Namespace.confidence classifier_args = Some ''nn'' \<and>
   classification classifier_model \<and>
   MoleculeModel.confidence classifier_model \<and>
   MPN example_framework (classifier_args\<lparr>output_size := Some 12\<rparr>) = Inr () \<and>
   create_ffn example_framework
     ((MoleculeModel_init True True)\<lparr>encoder := Some ()\<rparr>)
     (classifier_args\<lparr>output_size := Some 12\<rparr>) = Inr classifier_model \<and>
   initialize_weights example_framework classifier_model = classifier_model \<and>
   build_model example_framework (classifier_args\<lparr>activation := ''swish''\<rparr>) =
     (classifier_args\<lparr>activation := ''swish'', output_size := Some 12\<rparr>, [''nn''],
      Inl (ValueError ''swish'')) \<and>
   build_model (example_framework\<lparr>MPN := \<lambda>args. Inl (RuntimeError ''MPN'')\<rparr>)
       (classifier_args\<lparr>activation := ''swish''\<rparr>) =
     (classifier_args\<lparr>activation := ''swish'', output_size := Some 12\<rparr>, [''nn''],
      Inl (RuntimeError ''MPN''))"
proof -
  have k: "interior_stages 3 = 0"
    by (simp add: interior_stages_def)
  have built: "create_ffn example_framework
     ((MoleculeModel_init True True)\<lparr>encoder := Some ()\<rparr>)
     (classifier_args\<lparr>output_size := Some 12\<rparr>) = Inr classifier_model"
    by (simp add: create_ffn_eq example_framework_def classifier_args_def
        classifier_model_def MoleculeModel_init_def nn_Linear_def input_width_def
        many_layer_head_def stage_def k)
  have init: "initialize_weights example_framework classifier_model = classifier_model"
    by (simp add: initialize_weights_def example_framework_def classifier_model_def)
  have first: "build_model example_framework classifier_args =
     (classifier_args\<lparr>output_size := Some 12\<rparr>, [''nn''], Inr classifier_model) \<and>
   dataset_type classifier_args = ''classification'' \<and>
   Namespace.confidence classifier_args = Some ''nn'' \<and>
   classification classifier_model \<and>
   MoleculeModel.confidence classifier_model \<and>
   MPN example_framework (classifier_args\<lparr>output_size := Some 12\<rparr>) = Inr () \<and>
   create_ffn example_framework
     ((MoleculeModel_init True True)\<lparr>encoder := Some ()\<rparr>)
     (classifier_args\<lparr>output_size := Some 12\<rparr>) = Inr classifier_model \<and>
   initialize_weights example_framework classifier_model = classifier_model"
    using build_model_assembly [OF build_classifier] build_classifier built init
    by (simp add: classifier_args_def classifier_model_def example_framework_def)
  from build_model_assembly [OF build_unknown_activation]
  have head_fails: "build_model example_framework (classifier_args\<lparr>activation := ''swish''\<rparr>) =
     (classifier_args\<lparr>activation := ''swish'', output_size := Some 12\<rparr>, [''nn''],
      Inl (ValueError ''swish''))"
    by (simp only: build_unknown_activation)
  from build_model_assembly [OF build_broken_encoder]
  have encoder_fails:
    "build_model (example_framework\<lparr>MPN := \<lambda>args. Inl (RuntimeError ''MPN'')\<rparr>)
       (classifier_args\<lparr>activation := ''swish''\<rparr>) =
     (classifier_args\<lparr>activation := ''swish'', output_size := Some 12\<rparr>, [''nn''],
      Inl (RuntimeError ''MPN''))"
    by (simp only: build_broken_encoder)
  from first head_fails encoder_fails show ?thesis
    by (simp only: simp_thms)
qed

section \<open>What forward returns\<close>

lemma forward_eq:
  "forward rt self input =
     (case ffn self of
        None \<Rightarrow> Inl (AttributeError ''ffn'')
      | Some head \<Rightarrow>
          (case run_stages rt self
                  (if use_last_hidden self then head else butlast (children head)) input of
             Inl e \<Rightarrow> Inl e
           | Inr output \<Rightarrow>
               if classification self \<and> \<not> training self \<and> use_last_hidden self
               then (case sigmoid self of
                       None \<Rightarrow> Inl (AttributeError ''sigmoid'')
                     | Some _ \<Rightarrow> Inr (sigmoid_call rt output))
               else Inr output))"
  by (simp add: forward_def run_stages_def Let_def split: option.split sum.split)

lemma sigmoid_range: "0 \<le> 1 / (1 + exp (- v)) \<and> 1 / (1 + exp (- v)) \<le> (1::real)"
proof -
  have "0 < exp (- v)" by simp
  then have "1 \<le> 1 + exp (- v)" by simp
  then show ?thesis by (simp add: divide_le_eq add_pos_pos)
qed

lemma sigmoid_scalar_range:
  assumes "\<forall>v. 0 \<le> v \<and> v \<le> 1 \<longrightarrow> 0 \<le> rnd v \<and> rnd v \<le> 1"
  shows "sigmoid_scalar rnd r = NaN \<and> r = NaN \<or> in_unit_interval (sigmoid_scalar rnd r)"
proof (cases r)
  case (Finite v)
  from assms sigmoid_range [of v]
  have "0 \<le> rnd (1 / (1 + exp (- v))) \<and> rnd (1 / (1 + exp (- v))) \<le> 1"
    by blast
  with Finite show ?thesis by simp
qed simp_all

lemma nn_Sigmoid_range:
  assumes "\<forall>v. 0 \<le> v \<and> v \<le> 1 \<longrightarrow> 0 \<le> rnd v \<and> rnd v \<le> 1"
    and "row \<in> set (nn_Sigmoid rnd rows)" and "v \<in> set row"
  shows "v = NaN \<or> in_unit_interval v"
proof -
  from assms(2,3) obtain r where "v = sigmoid_scalar rnd r"
    by (auto simp: nn_Sigmoid_def)
  with sigmoid_scalar_range [OF assms(1), of r] show ?thesis by auto
qed

lemma nn_Sigmoid_no_NaN:
  assumes "\<forall>v. 0 \<le> v \<and> v \<le> 1 \<longrightarrow> 0 \<le> rnd v \<and> rnd v \<le> 1"
    and "list_all (list_all (\<lambda>r. r \<noteq> NaN)) rows"
  shows "list_all (list_all in_unit_interval) (nn_Sigmoid rnd rows)"
proof -
  have "in_unit_interval (sigmoid_scalar rnd r)" if "r \<noteq> NaN" for r
    using sigmoid_scalar_range [OF assms(1), of r] that by blast
  with assms(2) show ?thesis
    by (auto simp: nn_Sigmoid_def list_all_iff)
qed

lemma forward_constructed:
  assumes "self = (MoleculeModel_init c u)
             \<lparr>training := t, use_last_hidden := l, encoder := e, ffn := Some head\<rparr>"
  shows "forward rt self x =
           (if c \<and> \<not> t \<and> l
            then map_sum id (sigmoid_call rt) (run_stages rt self head x)
            else run_stages rt self (if l then head else butlast (children head)) x)"
proof -
  have fields: "ffn self = Some head" "use_last_hidden self = l" "training self = t"
    "classification self = c" "sigmoid self = (if c then Some () else None)"
    by (simp_all add: assms MoleculeModel_init_def)
  show ?thesis
    by (simp add: forward_eq fields split: sum.split)
qed

lemma Sequential_call_plain: "Sequential_call (\<lambda>m tensor. Inr tensor) ms x = Inr x"
  by (induction ms) simp_all

lemma run_stages_plain:
  "encoder self = Some enc \<Longrightarrow> run_stages plain_runtime self ms x = Inr x"
  by (simp add: run_stages_def plain_runtime_def Sequential_call_plain)

text \<open>
  C2, as the claim states its consequence: for a classifier in inference mode with full
  output requested, every element of the returned tensor lies in [0, 1]. It does not
  when the head puts out not-a-number: the sigmoid of not-a-number is not-a-number.
\<close>
theorem forward_sigmoid_NaN_counterexample:
  "classification (classifier_model\<lparr>training := False\<rparr>) \<and>
   \<not> training (classifier_model\<lparr>training := False\<rparr>) \<and>
   use_last_hidden (classifier_model\<lparr>training := False\<rparr>) \<and>
   forward plain_runtime (classifier_model\<lparr>training := False\<rparr>) [[NaN, Finite 0]] =
     Inr [[NaN, Finite (1 / 2)]] \<and>
   \<not> in_unit_interval NaN \<and>
   \<not> list_all (list_all in_unit_interval) [[NaN, Finite (1 / 2)]]"
  by (simp add: forward_def classifier_model_def plain_runtime_def nn_Sigmoid_def
      Sequential_call_plain)

text \<open>
  C2, amended. For a model as the constructor leaves it, whatever the callers have set
  the training flag, the full-output flag, the encoder and the head to: \<open>forward\<close>
  returns the sigmoid of the output of the full head when the model was constructed as a
  classifier, is not in training mode and has the full-output flag set, and in every
  other case the raw output of the stages it ran. So for such a classifier every element
  of the returned tensor is not-a-number or lies in [0, 1], and all of them lie in
  [0, 1] when the output of the head holds no not-a-number; and in training mode the
  output is the raw one. The rounding of the floating point format is taken to keep a
  number of [0, 1] within [0, 1], as rounding to nearest does: 0 and 1 are floats.
\<close>
theorem forward_sigmoid_iff:
  fixes rt :: "('enc, 'act, 'p, 'inp, 't) runtime"
    and rt_float :: "('enc, 'act, 'p, 'inp, scalar list list) runtime"
  assumes "self = (MoleculeModel_init c u)
             \<lparr>training := t, use_last_hidden := l, encoder := e, ffn := Some head\<rparr>"
    and "\<forall>v. 0 \<le> v \<and> v \<le> 1 \<longrightarrow> 0 \<le> rnd v \<and> rnd v \<le> 1"
  shows "forward rt self x =
           (if c \<and> \<not> t \<and> l
            then map_sum id (sigmoid_call rt) (run_stages rt self head x)
            else run_stages rt self (if l then head else butlast (children head)) x) \<and>
         (c \<and> \<not> t \<and> l \<longrightarrow>
            (\<forall>y. forward (rt_float\<lparr>sigmoid_call := nn_Sigmoid rnd\<rparr>) self x = Inr y \<longrightarrow>
               (\<exists>raw.
                  run_stages (rt_float\<lparr>sigmoid_call := nn_Sigmoid rnd\<rparr>) self head x = Inr raw \<and>
                  y = nn_Sigmoid rnd raw \<and>
                  (\<forall>row \<in> set y. \<forall>v \<in> set row. v = NaN \<or> in_unit_interval v) \<and>
                  (list_all (list_all (\<lambda>r. r \<noteq> NaN)) raw \<longrightarrow>
                     list_all (list_all in_unit_interval) y)))) \<and>
         (t \<longrightarrow> forward rt self x =
                  run_stages rt self (if l then head else butlast (children head)) x)"
proof -
  note general = forward_constructed [OF assms(1)]
  let ?rt = "rt_float\<lparr>sigmoid_call := nn_Sigmoid rnd\<rparr>"
  have range: "\<exists>raw.
      run_stages ?rt self head x = Inr raw \<and>
      y = nn_Sigmoid rnd raw \<and>
      (\<forall>row \<in> set y. \<forall>v \<in> set row. v = NaN \<or> in_unit_interval v) \<and>
      (list_all (list_all (\<lambda>r. r \<noteq> NaN)) raw \<longrightarrow> list_all (list_all in_unit_interval) y)"
    if on: "c \<and> \<not> t \<and> l" and y: "forward ?rt self x = Inr y" for y
  proof -
    from y on obtain raw where raw: "run_stages ?rt self head x = Inr raw"
      and sig: "y = nn_Sigmoid rnd raw"
      by (auto simp: general map_sum_def split: sum.splits)
    have "\<forall>row \<in> set y. \<forall>v \<in> set row. v = NaN \<or> in_unit_interval v"
      unfolding sig using nn_Sigmoid_range [OF assms(2)] by blast
    moreover have "list_all (list_all (\<lambda>r. r \<noteq> NaN)) raw \<longrightarrow>
        list_all (list_all in_unit_interval) y"
      unfolding sig using nn_Sigmoid_no_NaN [OF assms(2)] by blast
    ultimately show ?thesis using raw sig by blast
  qed
  from general [of rt x] range show ?thesis
    by simp
qed

lemma classifier_model_init:
  "classifier_model\<lparr>training := t, use_last_hidden := l\<rparr> =
     (MoleculeModel_init True True)
       \<lparr>training := t, use_last_hidden := l, encoder := Some (),
        ffn := Some [Dropout 0, Linear 1 500 300 (),
          Activation ''ReLU'', Dropout 0, Linear 4 300 100 (),
          Activation ''ReLU'', Dropout 0, Linear 7 100 24 ()]\<rparr>"
  by (simp add: classifier_model_def MoleculeModel_init_def)

lemma plain_runtime_sigmoid:
  "plain_runtime\<lparr>sigmoid_call := nn_Sigmoid (\<lambda>v. v)\<rparr> = plain_runtime"
  by (simp add: plain_runtime_def)

lemma plain_rounding: "\<forall>v::real. 0 \<le> v \<and> v \<le> 1 \<longrightarrow> 0 \<le> (\<lambda>v. v) v \<and> (\<lambda>v. v) v \<le> 1"
  by simp

theorem forward_sigmoid_iff_witness:
  "forward plain_runtime (classifier_model\<lparr>training := False, use_last_hidden := True\<rparr>)
     [[Finite 0, NegInf]] = Inr [[Finite (1 / 2), Finite 0]] \<and>
   list_all (list_all (\<lambda>r. r \<noteq> NaN)) [[Finite 0, NegInf]] \<and>
   list_all (list_all in_unit_interval) [[Finite (1 / 2), Finite 0]] \<and>
   forward plain_runtime (classifier_model\<lparr>training := True, use_last_hidden := True\<rparr>)
     [[Finite 0, NegInf]] = Inr [[Finite 0, NegInf]] \<and>
   forward plain_runtime (classifier_model\<lparr>training := False, use_last_hidden := False\<rparr>)
     [[Finite 0, NegInf]] = Inr [[Finite 0, NegInf]]"
proof -
  have enc: "encoder (classifier_model\<lparr>training := t, use_last_hidden := l\<rparr>) = Some ()" for t l
    by (simp add: classifier_model_def)
  have sig: "sigmoid_call plain_runtime [[Finite 0, NegInf]] = [[Finite (1 / 2), Finite 0]]"
    by (simp add: plain_runtime_def nn_Sigmoid_def)
  from forward_sigmoid_iff [OF classifier_model_init [where t = False and l = True] plain_rounding,
      of plain_runtime "[[Finite 0, NegInf]]" plain_runtime]
    forward_sigmoid_iff [OF classifier_model_init [where t = True and l = True] plain_rounding,
      of plain_runtime "[[Finite 0, NegInf]]" plain_runtime]
    forward_sigmoid_iff [OF classifier_model_init [where t = False and l = False] plain_rounding,
      of plain_runtime "[[Finite 0, NegInf]]" plain_runtime]
  show ?thesis
    by (simp add: run_stages_plain [OF enc] sig plain_runtime_sigmoid)
qed

text \<open>
  C9. The constructor sets the full-output flag, and a model that \<open>build_model\<close> returns
  still has it set and is in training mode. Its forward pass runs the complete head; as
  returned it gives the raw output, and once it is taken out of training mode it gives
  the sigmoid of that output when it is a classifier.
\<close>
theorem fresh_model_runs_full_head:
  fixes fw :: "('z, 'enc, 'act, 'p) framework"
    and rt :: "('enc, 'act, 'p, 'inp, 't) runtime"
  assumes "build_model fw args = (args', printed, Inr model)"
  shows "use_last_hidden (MoleculeModel_init c u :: ('enc, 'act, 'p) MoleculeModel) \<and>
         use_last_hidden model \<and>
         training model \<and>
         (\<exists>head.
            ffn model = Some head \<and>
            forward rt model x = run_stages rt model head x \<and>
            forward rt (model\<lparr>training := False\<rparr>) x =
              (if classification model
               then map_sum id (sigmoid_call rt) (run_stages rt model head x)
               else run_stages rt model head x))"
proof -
  let ?self = "MoleculeModel_init (dataset_type args = ''classification'')
           (Namespace.confidence args = Some ''nn'') :: ('enc, 'act, 'p) MoleculeModel"
  from assms obtain enc built where
    built: "create_ffn fw (?self\<lparr>encoder := Some enc\<rparr>) args' = Inr built" and
    model: "model = initialize_weights fw built"
    by (rule build_model_InrD)
  from create_ffn_frame [OF built] obtain head where
    frame: "built = ?self\<lparr>encoder := Some enc\<rparr>\<lparr>ffn := Some head\<rparr>"
    by blast
  let ?head = "map (init_module fw) head"
  have shape: "model\<lparr>training := t\<rparr> =
      (MoleculeModel_init (dataset_type args = ''classification'')
           (Namespace.confidence args = Some ''nn''))
        \<lparr>training := t, use_last_hidden := True,
         encoder := Some (init_encoder fw enc), ffn := Some ?head\<rparr>" for t
    by (simp add: model frame initialize_weights_def MoleculeModel_init_def)
  have fields: "use_last_hidden model" "training model" "ffn model = Some ?head"
    "classification model = (dataset_type args = ''classification'')"
    by (simp_all add: model frame initialize_weights_def MoleculeModel_init_def)
  have run: "run_stages rt (model\<lparr>training := t\<rparr>) ms x = run_stages rt model ms x" for t ms
    by (simp add: run_stages_def)
  have "model\<lparr>training := True\<rparr> = model"
    using fields(2) by simp
  with forward_constructed [OF shape [of True], of rt x]
  have fresh: "forward rt model x = run_stages rt model ?head x"
    by (simp add: run)
  from forward_constructed [OF shape [of False], of rt x]
  have eval: "forward rt (model\<lparr>training := False\<rparr>) x =
              (if classification model
               then map_sum id (sigmoid_call rt) (run_stages rt model ?head x)
               else run_stages rt model ?head x)"
    by (simp add: run fields)
  have "use_last_hidden (MoleculeModel_init c u :: ('enc, 'act, 'p) MoleculeModel)"
    by (simp add: MoleculeModel_init_def)
  with fields fresh eval show ?thesis by blast
qed

theorem fresh_model_runs_full_head_witness:
  "build_model example_framework classifier_args =
     (classifier_args\<lparr>output_size := Some 12\<rparr>, [''nn''], Inr classifier_model) \<and>
   use_last_hidden classifier_model \<and>
   classification classifier_model \<and>
   forward plain_runtime classifier_model [[Finite 0]] = Inr [[Finite 0]] \<and>
   forward plain_runtime (classifier_model\<lparr>training := False\<rparr>) [[Finite 0]] =
     Inr [[Finite (1 / 2)]]"
proof -
  have enc: "encoder classifier_model = Some ()"
    by (simp add: classifier_model_def)
  have sig: "sigmoid_call plain_runtime [[Finite 0]] = [[Finite (1 / 2)]]"
    by (simp add: plain_runtime_def nn_Sigmoid_def)
  have cls: "classification classifier_model"
    by (simp add: classifier_model_def)
  from fresh_model_runs_full_head [OF build_classifier, where rt = plain_runtime
      and x = "[[Finite 0]]"]
    build_classifier
  show ?thesis
    by (auto simp: run_stages_plain [OF enc] sig cls)
qed

lemma forward_truncated_one:
  assumes "ffn model = Some [Dropout rate, Linear pos i out w]"
    and "\<not> use_last_hidden model"
  shows "forward rt model x = run_stages rt model [Dropout rate] x"
  by (simp add: forward_eq assms children_def split: sum.split)

text \<open>
  C10. With a feed-forward layer count of 1 and the full-output flag cleared, \<open>forward\<close>
  runs the dropout module alone on the encoder's output: no linear transform and no
  sigmoid, also for a classifier outside training mode. On shapes, the width returned is
  the width the encoder gives, so the input width when the encoder gives that.
\<close>
theorem forward_truncated_single_layer:
  fixes rt :: "('enc, 'act, 'p, 'inp, 't) runtime"
  assumes "ffn_num_layers args = 1" and "create_ffn fw self args = Inr built"
    and "model = built\<lparr>use_last_hidden := False, training := t\<rparr>"
  shows "forward rt model x =
           (case encoder self of
              None \<Rightarrow> Inl (AttributeError ''encoder'')
            | Some enc \<Rightarrow>
                (case encoder_call rt enc x of
                   Inl e \<Rightarrow> Inl e
                 | Inr hidden \<Rightarrow> module_call rt (Dropout (dropout args)) hidden)) \<and>
         forward rt model x = run_stages rt model [Dropout (dropout args)] x \<and>
         (encoder self \<noteq> None \<longrightarrow>
            forward (shape_runtime w) model x = Inr w \<and>
            forward (shape_runtime (input_width args)) model x = Inr (input_width args))"
proof -
  from assms(2) obtain act out where
    shape: "built = self\<lparr>ffn := Some
       (if ffn_num_layers args = 1
        then [Dropout (dropout args),
              nn_Linear fw 1 (input_width args)
                (if MoleculeModel.confidence self then out * 2 else out)]
        else many_layer_head fw act args
               (if MoleculeModel.confidence self then out * 2 else out))\<rparr>"
    by (rule create_ffn_InrD)
  let ?linear = "nn_Linear fw 1 (input_width args)
                (if MoleculeModel.confidence self then out * 2 else out)"
  have fields: "ffn model = Some [Dropout (dropout args), ?linear]"
    "\<not> use_last_hidden model" "encoder model = encoder self"
    by (simp_all add: assms(3) shape assms(1))
  note fwd = forward_truncated_one [OF fields(1) [unfolded nn_Linear_def] fields(2)]
  have "run_stages rt model [Dropout (dropout args)] x =
           (case encoder self of
              None \<Rightarrow> Inl (AttributeError ''encoder'')
            | Some enc \<Rightarrow>
                (case encoder_call rt enc x of
                   Inl e \<Rightarrow> Inl e
                 | Inr hidden \<Rightarrow> module_call rt (Dropout (dropout args)) hidden))"
    by (simp add: run_stages_def fields split: option.split sum.split)
  moreover have "forward (shape_runtime v) model x = Inr v" if "encoder self \<noteq> None" for v
    using that by (auto simp: fwd run_stages_def fields shape_runtime_def)
  ultimately show ?thesis
    by (simp add: fwd)
qed


theorem forward_truncated_single_layer_witness:
  "ffn_num_layers (example_args_layers 1) = 1 \<and>
   create_ffn example_framework ((MoleculeModel_init True False)\<lparr>encoder := Some ()\<rparr>)
     (example_args_layers 1) = Inr one_layer_classifier \<and>
   forward trace_runtime
     (one_layer_classifier\<lparr>use_last_hidden := False, training := False\<rparr>) () =
     Inr [Dropout 0] \<and>
   input_width (example_args_layers 1) = 300 \<and>
   forward (shape_runtime 300)
     (one_layer_classifier\<lparr>use_last_hidden := False, training := False\<rparr>) () = Inr 300"
proof -
  have one: "ffn_num_layers (example_args_layers 1) = 1"
    by (simp add: example_args_layers_def)
  have built: "create_ffn example_framework ((MoleculeModel_init True False)\<lparr>encoder := Some ()\<rparr>)
     (example_args_layers 1) = Inr one_layer_classifier"
    by (simp add: create_ffn_eq example_framework_def example_args_layers_def
        one_layer_classifier_def MoleculeModel_init_def nn_Linear_def input_width_def)
  have width: "input_width (example_args_layers 1) = 300"
    by (simp add: input_width_def example_args_layers_def)
  have rate: "dropout (example_args_layers 1) = 0"
    by (simp add: example_args_layers_def)
  have trace: "module_call trace_runtime (Dropout 0) [] = Inr [Dropout 0]"
    "encoder_call trace_runtime () () = Inr []"
    by (simp_all add: trace_runtime_def)
  from forward_truncated_single_layer [OF one built refl, where rt = trace_runtime
      and x = "()" and t = False and w = 300]
  show ?thesis
    by (simp add: one built width rate trace)
qed

text \<open>
  C4. The claim is that with the full-output flag cleared \<open>forward\<close> runs the head minus
  its final stage. \<open>forward\<close> takes \<open>children()\<close> of the head and drops the last of
  them, and \<open>children()\<close> yields the one dropout object and the one activation object
  once each. On the model built from the example configuration with four layers, the
  stages that run are dropout, linear, activation, linear, linear: the later dropouts and
  activations of the head are left out, not only its final linear transform.
\<close>
theorem forward_truncated_four_layers:
  "build_model example_framework (example_args_layers 4) =
     (example_args_layers 4, [], Inr four_layer_model) \<and>
   ffn four_layer_model = Some
     [Dropout 0, Linear 1 300 300 (),
      Activation ''ReLU'', Dropout 0, Linear 4 300 300 (),
      Activation ''ReLU'', Dropout 0, Linear 7 300 300 (),
      Activation ''ReLU'', Dropout 0, Linear 10 300 1 ()] \<and>
   forward trace_runtime (four_layer_model\<lparr>use_last_hidden := False\<rparr>) () =
     Inr [Dropout 0, Linear 1 300 300 (),
          Activation ''ReLU'', Linear 4 300 300 (), Linear 7 300 300 ()] \<and>
   run_stages trace_runtime four_layer_model
     [Dropout 0, Linear 1 300 300 (),
      Activation ''ReLU'', Dropout 0, Linear 4 300 300 (),
      Activation ''ReLU'', Dropout 0, Linear 7 300 300 ()] () =
     Inr [Dropout 0, Linear 1 300 300 (),
          Activation ''ReLU'', Dropout 0, Linear 4 300 300 (),
          Activation ''ReLU'', Dropout 0, Linear 7 300 300 ()] \<and>
   forward trace_runtime four_layer_model () =
     Inr [Dropout 0, Linear 1 300 300 (),
          Activation ''ReLU'', Dropout 0, Linear 4 300 300 (),
          Activation ''ReLU'', Dropout 0, Linear 7 300 300 (),
          Activation ''ReLU'', Dropout 0, Linear 10 300 1 ()]"
proof -
  have k: "interior_stages 4 = 1"
    by (simp add: interior_stages_def)
  have build: "build_model example_framework (example_args_layers 4) =
     (example_args_layers 4, [], Inr four_layer_model)"
    by (simp add: build_model_eq create_ffn_eq example_framework_def example_args_layers_def
        four_layer_model_def MoleculeModel_init_def nn_Linear_def input_width_def
        many_layer_head_def stage_def k initialize_weights_def)
  have head: "ffn four_layer_model = Some
     [Dropout 0, Linear 1 300 300 (),
      Activation ''ReLU'', Dropout 0, Linear 4 300 300 (),
      Activation ''ReLU'', Dropout 0, Linear 7 300 300 (),
      Activation ''ReLU'', Dropout 0, Linear 10 300 1 ()]"
    by (simp add: four_layer_model_def)
  have cut: "forward trace_runtime (four_layer_model\<lparr>use_last_hidden := False\<rparr>) () =
     Inr [Dropout 0, Linear 1 300 300 (),
          Activation ''ReLU'', Linear 4 300 300 (), Linear 7 300 300 ()]"
    by (simp add: forward_def four_layer_model_def children_def trace_runtime_def)
  have stages: "run_stages trace_runtime four_layer_model
     [Dropout 0, Linear 1 300 300 (),
      Activation ''ReLU'', Dropout 0, Linear 4 300 300 (),
      Activation ''ReLU'', Dropout 0, Linear 7 300 300 ()] () =
     Inr [Dropout 0, Linear 1 300 300 (),
          Activation ''ReLU'', Dropout 0, Linear 4 300 300 (),
          Activation ''ReLU'', Dropout 0, Linear 7 300 300 ()]"
    by (simp add: run_stages_def four_layer_model_def trace_runtime_def)
  have full: "forward trace_runtime four_layer_model () =
     Inr [Dropout 0, Linear 1 300 300 (),
          Activation ''ReLU'', Dropout 0, Linear 4 300 300 (),
          Activation ''ReLU'', Dropout 0, Linear 7 300 300 (),
          Activation ''ReLU'', Dropout 0, Linear 10 300 1 ()]"
    by (simp add: forward_def four_layer_model_def trace_runtime_def)
  from build head cut stages full show ?thesis
    by (intro conjI)
qed

section \<open>The children of a head\<close>

lemma named_children_memo_set:
  "set memo = set memo' \<Longrightarrow> named_children memo ms = named_children memo' ms"
proof (induction ms arbitrary: memo memo')
  case Nil
  show ?case by simp
next
  case (Cons m ms)
  from Cons.prems have "set (m # memo) = set (m # memo')" by simp
  then have "named_children (m # memo) ms = named_children (m # memo') ms"
    by (rule Cons.IH)
  moreover have "named_children memo ms = named_children memo' ms"
    using Cons.prems by (rule Cons.IH)
  ultimately show ?case using Cons.prems by simp
qed

lemma named_children_append:
  "named_children memo (xs @ ys) = named_children memo xs @ named_children (xs @ memo) ys"
proof (induction xs arbitrary: memo)
  case Nil
  show ?case by simp
next
  case (Cons x xs)
  show ?case
  proof (cases "x \<in> set memo")
    case True
    then have "set (xs @ memo) = set ((x # xs) @ memo)" by auto
    then have "named_children (xs @ memo) ys = named_children ((x # xs) @ memo) ys"
      by (rule named_children_memo_set)
    with True Cons.IH [of memo] show ?thesis by simp
  next
    case False
    have "set (xs @ x # memo) = set ((x # xs) @ memo)" by auto
    then have "named_children (xs @ x # memo) ys = named_children ((x # xs) @ memo) ys"
      by (rule named_children_memo_set)
    with False Cons.IH [of "x # memo"] show ?thesis by simp
  qed
qed

lemma positions_append: "positions (xs @ ys) = positions xs \<union> positions ys"
  by (induction xs rule: positions.induct) simp_all

lemma not_in_positions: "pos \<notin> positions ms \<Longrightarrow> Linear pos i out w \<notin> set ms"
  by (induction ms rule: positions.induct) auto

lemma named_children_stages:
  assumes "Activation act \<in> set memo" and "Dropout rate \<in> set memo"
    and "distinct (map fst dims)" and "fst ` set dims \<inter> positions memo = {}"
  shows "named_children memo
           (concat (map (\<lambda>(pos, i, out). stage fw act rate pos i out) dims)) =
         map (\<lambda>(pos, i, out). nn_Linear fw pos i out) dims"
  using assms
proof (induction dims arbitrary: memo)
  case Nil
  show ?case by simp
next
  case (Cons d dims)
  obtain pos i out where d: "d = (pos, i, out)" by (cases d)
  let ?linear = "nn_Linear fw pos i out"
  from Cons.prems(4) d have "pos \<notin> positions memo" by auto
  then have fresh: "?linear \<notin> set memo"
    unfolding nn_Linear_def by (rule not_in_positions)
  have "named_children (?linear # memo)
           (concat (map (\<lambda>(pos, i, out). stage fw act rate pos i out) dims)) =
         map (\<lambda>(pos, i, out). nn_Linear fw pos i out) dims"
  proof (rule Cons.IH)
    show "Activation act \<in> set (?linear # memo)" using Cons.prems(1) by simp
    show "Dropout rate \<in> set (?linear # memo)" using Cons.prems(2) by simp
    show "distinct (map fst dims)" using Cons.prems(3) by simp
    show "fst ` set dims \<inter> positions (?linear # memo) = {}"
      using Cons.prems(3,4) d by (auto simp: nn_Linear_def)
  qed
  with fresh Cons.prems(1,2) show ?case
    by (simp add: d stage_def)
qed



lemma concat_map_append_two:
  "concat (map f (xs @ [a, b])) = concat (map f xs) @ f a @ f b"
  by simp

lemma many_layer_head_later:
  "many_layer_head fw act args out =
     [Dropout (dropout args), nn_Linear fw 1 (input_width args) (ffn_hidden_size args)]
     @ concat (map (\<lambda>(pos, i, out). stage fw act (dropout args) pos i out)
                 (later_stages args out))"
  unfolding many_layer_head_def later_stages_def concat_map_append_two
  by (simp add: comp_def)

lemma later_stages_fst:
  "map fst (later_stages args out) =
     map (\<lambda>j. 3 * j + 4) [0..<interior_stages (ffn_num_layers args) + 2]"
  by (simp add: later_stages_def comp_def)

lemma distinct_positions: "distinct (map (\<lambda>j. 3 * j + 4) [0..<n::nat])"
  by (simp add: distinct_map inj_on_def)

lemma low_positions: "pos \<in> set (map (\<lambda>j. 3 * j + 4) [0..<n::nat]) \<Longrightarrow> 4 \<le> pos"
  by auto

lemma later_stages_distinct: "distinct (map fst (later_stages args out))"
  unfolding later_stages_fst by (rule distinct_positions)

lemma later_stages_positions: "pos \<in> fst ` set (later_stages args out) \<Longrightarrow> 4 \<le> pos"
proof -
  assume "pos \<in> fst ` set (later_stages args out)"
  then have "pos \<in> set (map fst (later_stages args out))" by simp
  then show ?thesis unfolding later_stages_fst by (rule low_positions)
qed

lemma named_children_later:
  assumes "Activation act \<notin> set memo" and "Dropout rate \<in> set memo"
    and "distinct (map fst (d # dims))" and "fst ` set (d # dims) \<inter> positions memo = {}"
  shows "named_children memo
           (concat (map (\<lambda>(pos, i, out). stage fw act rate pos i out) (d # dims))) =
         Activation act # map (\<lambda>(pos, i, out). nn_Linear fw pos i out) (d # dims)"
proof -
  obtain pos i out where d: "d = (pos, i, out)" by (cases d)
  let ?linear = "nn_Linear fw pos i out"
  let ?memo = "?linear # Activation act # memo"
  from assms(4) d have "pos \<notin> positions memo" by auto
  then have fresh: "?linear \<notin> set memo"
    unfolding nn_Linear_def by (rule not_in_positions)
  have "named_children ?memo
           (concat (map (\<lambda>(pos, i, out). stage fw act rate pos i out) dims)) =
         map (\<lambda>(pos, i, out). nn_Linear fw pos i out) dims"
  proof (rule named_children_stages)
    show "Activation act \<in> set ?memo" by simp
    show "Dropout rate \<in> set ?memo" using assms(2) by simp
    show "distinct (map fst dims)" using assms(3) by simp
    show "fst ` set dims \<inter> positions ?memo = {}"
      using assms(3,4) d by (auto simp: nn_Linear_def)
  qed
  with fresh assms(1,2) show ?thesis
    by (simp add: d stage_def nn_Linear_def)
qed

lemma children_many_layer_head:
  "children (many_layer_head fw act args out) =
     [Dropout (dropout args), nn_Linear fw 1 (input_width args) (ffn_hidden_size args),
      Activation act]
     @ map (\<lambda>(pos, i, out). nn_Linear fw pos i out) (later_stages args out)"
proof -
  let ?first = "nn_Linear fw 1 (input_width args) (ffn_hidden_size args)"
  let ?memo = "[?first, Dropout (dropout args)]"
  obtain d dims where cons: "later_stages args out = d # dims"
    by (cases "later_stages args out") (simp_all add: later_stages_def)
  have "named_children ?memo
           (concat (map (\<lambda>(pos, i, out). stage fw act (dropout args) pos i out) (d # dims))) =
         Activation act # map (\<lambda>(pos, i, out). nn_Linear fw pos i out) (d # dims)"
  proof (rule named_children_later)
    show "Activation act \<notin> set ?memo" by (simp add: nn_Linear_def)
    show "Dropout (dropout args) \<in> set ?memo" by simp
    show "distinct (map fst (d # dims))"
      using later_stages_distinct [of args out] by (simp add: cons)
    have "1 \<notin> fst ` set (d # dims)"
    proof
      assume "1 \<in> fst ` set (d # dims)"
      then have "1 \<in> fst ` set (later_stages args out)" by (simp only: cons)
      then have "4 \<le> (1::nat)" by (rule later_stages_positions)
      then show False by simp
    qed
    then show "fst ` set (d # dims) \<inter> positions ?memo = {}"
      by (simp add: nn_Linear_def)
  qed
  then have "named_children ?memo
           (concat (map (\<lambda>(pos, i, out). stage fw act (dropout args) pos i out)
              (later_stages args out))) =
         Activation act # map (\<lambda>(pos, i, out). nn_Linear fw pos i out) (later_stages args out)"
    by (simp only: cons)
  moreover have "children (many_layer_head fw act args out) =
      Dropout (dropout args) # ?first # named_children ?memo
           (concat (map (\<lambda>(pos, i, out). stage fw act (dropout args) pos i out)
              (later_stages args out)))"
    unfolding children_def many_layer_head_later
    by (simp add: nn_Linear_def)
  ultimately show ?thesis
    by simp
qed


lemma butlast_later_stages:
  "map (\<lambda>(pos, i, out). nn_Linear fw pos i out) (butlast (later_stages args out)) =
     map (\<lambda>j. nn_Linear fw (3 * j + 4) (ffn_hidden_size args) (ffn_hidden_size args))
       [0..<interior_stages (ffn_num_layers args)]
     @ [nn_Linear fw (3 * interior_stages (ffn_num_layers args) + 4)
          (ffn_hidden_size args) (last_hidden_size args)]"
  by (simp add: later_stages_def butlast_append comp_def)

lemma butlast_children_many_layer_head:
  "butlast (children (many_layer_head fw act args out)) =
     [Dropout (dropout args), nn_Linear fw 1 (input_width args) (ffn_hidden_size args),
      Activation act]
     @ map (\<lambda>j. nn_Linear fw (3 * j + 4) (ffn_hidden_size args) (ffn_hidden_size args))
         [0..<interior_stages (ffn_num_layers args)]
     @ [nn_Linear fw (3 * interior_stages (ffn_num_layers args) + 4)
          (ffn_hidden_size args) (last_hidden_size args)]"
proof -
  have "later_stages args out \<noteq> []"
    by (simp add: later_stages_def)
  then have "butlast (children (many_layer_head fw act args out)) =
     [Dropout (dropout args), nn_Linear fw 1 (input_width args) (ffn_hidden_size args),
      Activation act]
     @ map (\<lambda>(pos, i, out). nn_Linear fw pos i out) (butlast (later_stages args out))"
    by (simp add: children_many_layer_head butlast_append map_butlast)
  then show ?thesis
    by (simp only: butlast_later_stages)
qed

lemma Sequential_call_append:
  "Sequential_call call (xs @ ys) x =
     (case Sequential_call call xs x of
        Inl e \<Rightarrow> Inl e
      | Inr y \<Rightarrow> Sequential_call call ys y)"
  by (induction xs arbitrary: x) (simp_all split: sum.split)

lemma shape_call_same_width:
  "Sequential_call shape_call (map (\<lambda>j. nn_Linear fw (f j) width width) js) width = Inr width"
  by (induction js) (simp_all add: nn_Linear_def)

lemma shape_truncated_head:
  "Sequential_call shape_call
     ([Dropout rate, nn_Linear fw 1 w h, Activation act]
      @ map (\<lambda>j. nn_Linear fw (f j) h h) js
      @ [nn_Linear fw pos h narrow]) w = Inr narrow"
proof -
  have "Sequential_call shape_call [Dropout rate, nn_Linear fw 1 w h, Activation act] w = Inr h"
    by (simp add: nn_Linear_def)
  moreover have "Sequential_call shape_call [nn_Linear fw pos h narrow] h = Inr narrow"
    by (simp add: nn_Linear_def)
  ultimately show ?thesis
    by (simp only: Sequential_call_append shape_call_same_width sum.case)
qed

lemma forward_truncated:
  assumes "ffn model = Some head" and "\<not> use_last_hidden model"
  shows "forward rt model x = run_stages rt model (butlast (children head)) x"
  by (simp add: forward_eq assms split: sum.split)

text \<open>
  What \<open>forward\<close> runs for a layer count \<open>N > 1\<close> once the full-output flag is
  cleared: the dropout, the first linear layer, the activation, and then the remaining
  linear layers but the last one, with no dropout and no activation between them and no
  sigmoid after them. On shapes, an encoder output of the input width comes out with the
  last hidden width, which is the input width of the final linear layer.
\<close>
theorem forward_truncated_many_layers:
  fixes rt :: "('enc, 'act, 'p, 'inp, 't) runtime"
  assumes "1 < ffn_num_layers args" and "create_ffn fw self args = Inr built"
    and "model = built\<lparr>use_last_hidden := False, training := t\<rparr>"
  shows "\<exists>act k.
           get_activation_function fw (activation args) = Inr act \<and>
           k = nat (ffn_num_layers args - 3) \<and>
           forward rt model x =
             run_stages rt model
               ([Dropout (dropout args),
                 nn_Linear fw 1 (input_width args) (ffn_hidden_size args),
                 Activation act]
                @ map (\<lambda>j. nn_Linear fw (3 * j + 4)
                               (ffn_hidden_size args) (ffn_hidden_size args)) [0..<k]
                @ [nn_Linear fw (3 * k + 4) (ffn_hidden_size args) (last_hidden_size args)])
               x \<and>
           (encoder self \<noteq> None \<longrightarrow>
              forward (shape_runtime (input_width args)) model x =
                Inr (last_hidden_size args))"
proof -
  from assms(2) obtain act out where
    act: "get_activation_function fw (activation args) = Inr act" and
    shape: "built = self\<lparr>ffn := Some
       (if ffn_num_layers args = 1
        then [Dropout (dropout args),
              nn_Linear fw 1 (input_width args)
                (if MoleculeModel.confidence self then out * 2 else out)]
        else many_layer_head fw act args
               (if MoleculeModel.confidence self then out * 2 else out))\<rparr>"
    by (rule create_ffn_InrD)
  let ?out = "if MoleculeModel.confidence self then out * 2 else out"
  let ?k = "interior_stages (ffn_num_layers args)"
  let ?stages = "[Dropout (dropout args),
                 nn_Linear fw 1 (input_width args) (ffn_hidden_size args),
                 Activation act]
                @ map (\<lambda>j. nn_Linear fw (3 * j + 4)
                               (ffn_hidden_size args) (ffn_hidden_size args)) [0..<?k]
                @ [nn_Linear fw (3 * ?k + 4) (ffn_hidden_size args) (last_hidden_size args)]"
  have fields: "ffn model = Some (many_layer_head fw act args ?out)"
    "\<not> use_last_hidden model" "encoder model = encoder self"
    using assms(1) by (simp_all add: assms(3) shape)
  have cut: "butlast (children (many_layer_head fw act args ?out)) = ?stages"
    by (rule butlast_children_many_layer_head)
  have run: "forward rt model x = run_stages rt model ?stages x"
    using forward_truncated [OF fields(1,2), of rt x] by (simp only: cut)
  have width: "forward (shape_runtime (input_width args)) model x = Inr (last_hidden_size args)"
    if "encoder self \<noteq> None"
  proof -
    from that obtain enc where "encoder model = Some enc"
      by (auto simp: fields(3))
    then have "run_stages (shape_runtime (input_width args)) model ?stages x =
        Sequential_call shape_call ?stages (input_width args)"
      by (simp add: run_stages_def shape_runtime_def)
    also have "\<dots> = Inr (last_hidden_size args)"
      by (rule shape_truncated_head)
    finally show ?thesis
      using forward_truncated [OF fields(1,2), of "shape_runtime (input_width args)" x]
      by (simp only: cut)
  qed
  from act run width show ?thesis
    by (simp add: nat_interior)
qed


theorem forward_truncated_many_layers_witness:
  "1 < ffn_num_layers (classifier_args\<lparr>output_size := Some 12\<rparr>) \<and>
   create_ffn example_framework ((MoleculeModel_init True True)\<lparr>encoder := Some ()\<rparr>)
     (classifier_args\<lparr>output_size := Some 12\<rparr>) = Inr classifier_model \<and>
   forward trace_runtime
     (classifier_model\<lparr>use_last_hidden := False, training := False\<rparr>) () =
     Inr [Dropout 0, Linear 1 500 300 (), Activation ''ReLU'', Linear 4 300 100 ()] \<and>
   forward (shape_runtime 500)
     (classifier_model\<lparr>use_last_hidden := False, training := False\<rparr>) () = Inr 100"
proof -
  let ?args = "classifier_args\<lparr>output_size := Some 12\<rparr>"
  have layers: "1 < ffn_num_layers ?args"
    by (simp add: classifier_args_def)
  have k: "interior_stages 3 = 0"
    by (simp add: interior_stages_def)
  have built: "create_ffn example_framework
     ((MoleculeModel_init True True)\<lparr>encoder := Some ()\<rparr>) ?args = Inr classifier_model"
    by (simp add: create_ffn_eq example_framework_def classifier_args_def
        classifier_model_def MoleculeModel_init_def nn_Linear_def input_width_def
        many_layer_head_def stage_def k)
  have args: "input_width ?args = 500" "last_hidden_size ?args = 100"
    "ffn_hidden_size ?args = 300" "dropout ?args = 0" "ffn_num_layers ?args = 3"
    "activation ?args = ''ReLU''"
    by (simp_all add: input_width_def classifier_args_def)
  have trace: "run_stages trace_runtime
      (classifier_model\<lparr>use_last_hidden := False, training := False\<rparr>)
      [Dropout 0, Linear 1 500 300 (), Activation ''ReLU'', Linear 4 300 100 ()] () =
     Inr [Dropout 0, Linear 1 500 300 (), Activation ''ReLU'', Linear 4 300 100 ()]"
    by (simp add: run_stages_def trace_runtime_def classifier_model_def)
  from forward_truncated_many_layers [OF layers built refl, where rt = trace_runtime
      and x = "()" and t = False]
  have "forward trace_runtime
      (classifier_model\<lparr>use_last_hidden := False, training := False\<rparr>) () =
     Inr [Dropout 0, Linear 1 500 300 (), Activation ''ReLU'', Linear 4 300 100 ()] \<and>
    forward (shape_runtime 500)
     (classifier_model\<lparr>use_last_hidden := False, training := False\<rparr>) () = Inr 100"
    unfolding args by (simp add: example_framework_def nn_Linear_def trace [simplified])
  with layers built show ?thesis by simp
qed

end
